theory Spec2Isabelle
  imports Main
begin

section \<open>JSON-like values and the JavaScript operations applied to them\<close>

text \<open>
  \<^verbatim>\<open>src/extension/background.js\<close> receives provider payloads from \<^verbatim>\<open>res.json()\<close>, so a
  payload is a JSON value. \<open>JUndefined\<close> is added for the result of reading a property
  that is not there. Conventions of the embedding:
  \<^item> a number is an integer (\<open>JNum\<close>); fractions, \<open>NaN\<close> and magnitudes of \<open>2^53\<close> and
    above are not represented, so \<open>Number::toString\<close> is the decimal numeral;
  \<^item> a string is a list of characters, one per code unit;
  \<^item> an object is an association list in which the first binding of a key counts;
  \<^item> none of the property names the source reads is defined on a built-in prototype
    except \<open>length\<close>, so reading any other name from an array, a string, a number or a
    boolean gives \<open>undefined\<close>.
\<close>

datatype jsval =
    JUndefined
  | JNull
  | JBool bool
  | JNum int
  | JStr string
  | JArr "jsval list"
  | JObj "(string \<times> jsval) list"

text \<open>
  What a piece of code does: it returns a value, or it throws (the only exception the
  modelled code can raise is a \<open>TypeError\<close>), or it reaches a coercion this embedding
  does not define (\<open>Unmodelled\<close>: the relational comparison of a string, an array or an
  object with a number, which goes through \<open>StringToNumber\<close>).
\<close>

datatype 'a outcome = Returns 'a | TypeError | Unmodelled

fun bind :: "'a outcome \<Rightarrow> ('a \<Rightarrow> 'b outcome) \<Rightarrow> 'b outcome" where
  "bind (Returns x) f = f x"
| "bind TypeError f = TypeError"
| "bind Unmodelled f = Unmodelled"

text \<open>A \<^verbatim>\<open>try { ... } catch (e) { ... }\<close> whose handler only logs: an exception gives \<open>d\<close>.\<close>

fun try_catch :: "'a outcome \<Rightarrow> 'a \<Rightarrow> 'a outcome" where
  "try_catch TypeError d = Returns d"
| "try_catch r d = r"

fun mapM :: "('a \<Rightarrow> 'b outcome) \<Rightarrow> 'a list \<Rightarrow> 'b list outcome" where
  "mapM f [] = Returns []"
| "mapM f (x # xs) = bind (f x) (\<lambda>y. bind (mapM f xs) (\<lambda>ys. Returns (y # ys)))"

fun truthy :: "jsval \<Rightarrow> bool" where
  "truthy JUndefined = False"
| "truthy JNull = False"
| "truthy (JBool b) = b"
| "truthy (JNum n) = (n \<noteq> 0)"
| "truthy (JStr s) = (s \<noteq> [])"
| "truthy (JArr xs) = True"
| "truthy (JObj kvs) = True"

text \<open>\<^verbatim>\<open>a || b\<close> on values already computed.\<close>

definition or_else :: "jsval \<Rightarrow> jsval \<Rightarrow> jsval" where
  "or_else a b = (if truthy a then a else b)"

text \<open>\<^verbatim>\<open>typeof v === 'object'\<close>: true of \<open>null\<close>, arrays and objects.\<close>

fun typeof_object :: "jsval \<Rightarrow> bool" where
  "typeof_object JNull = True"
| "typeof_object (JArr xs) = True"
| "typeof_object (JObj kvs) = True"
| "typeof_object v = False"

definition lookup :: "(string \<times> jsval) list \<Rightarrow> string \<Rightarrow> jsval" where
  "lookup kvs k = (case map_of kvs k of Some v \<Rightarrow> v | None \<Rightarrow> JUndefined)"

text \<open>\<^verbatim>\<open>v.name\<close>: a \<open>TypeError\<close> on \<open>undefined\<close> and \<open>null\<close>.\<close>

fun get :: "jsval \<Rightarrow> string \<Rightarrow> jsval outcome" where
  "get JUndefined k = TypeError"
| "get JNull k = TypeError"
| "get (JObj kvs) k = Returns (lookup kvs k)"
| "get (JArr xs) k = Returns (if k = ''length'' then JNum (int (length xs)) else JUndefined)"
| "get (JStr s) k = Returns (if k = ''length'' then JNum (int (length s)) else JUndefined)"
| "get v k = Returns JUndefined"

subsection \<open>Numbers as strings\<close>

definition digit_char :: "nat \<Rightarrow> char" where
  "digit_char d = ''0123456789'' ! d"

fun show_nat :: "nat \<Rightarrow> string" where
  "show_nat n = (if n < 10 then [digit_char n] else show_nat (n div 10) @ [digit_char (n mod 10)])"

declare show_nat.simps [simp del]

definition show_int :: "int \<Rightarrow> string" where
  "show_int i = (if i < 0 then CHR ''-'' # show_nat (nat (- i)) else show_nat (nat i))"

text \<open>\<^verbatim>\<open>v[i]\<close>: on an object the index is the property named by its decimal numeral.\<close>

fun at :: "jsval \<Rightarrow> nat \<Rightarrow> jsval outcome" where
  "at JUndefined i = TypeError"
| "at JNull i = TypeError"
| "at (JArr xs) i = Returns (if i < length xs then xs ! i else JUndefined)"
| "at (JStr s) i = Returns (if i < length s then JStr [s ! i] else JUndefined)"
| "at (JObj kvs) i = Returns (lookup kvs (show_nat i))"
| "at v i = Returns JUndefined"

text \<open>
  \<open>ToString\<close>, as a template literal applies it to \<^verbatim>\<open>${v}\<close>. An array is joined with
  commas, \<open>undefined\<close> and \<open>null\<close> elements giving the empty string. An object gives
  \<^verbatim>\<open>[object Object]\<close>, unless it has a key \<open>toString\<close> of its own: that value is not
  callable, \<open>valueOf\<close> does not give a primitive, and the conversion throws.
\<close>

fun js_toString :: "jsval \<Rightarrow> string outcome"
  and js_join :: "jsval list \<Rightarrow> string outcome"
  and js_joinElem :: "jsval \<Rightarrow> string outcome" where
  "js_toString JUndefined = Returns ''undefined''"
| "js_toString JNull = Returns ''null''"
| "js_toString (JBool b) = Returns (if b then ''true'' else ''false'')"
| "js_toString (JNum n) = Returns (show_int n)"
| "js_toString (JStr s) = Returns s"
| "js_toString (JArr xs) = js_join xs"
| "js_toString (JObj kvs) =
     (if ''toString'' \<in> set (map fst kvs) then TypeError else Returns ''[object Object]'')"
| "js_join [] = Returns []"
| "js_join [x] = js_joinElem x"
| "js_join (x # y # ys) =
     bind (js_joinElem x) (\<lambda>s. bind (js_join (y # ys)) (\<lambda>r. Returns (s @ '','' @ r)))"
| "js_joinElem JUndefined = Returns []"
| "js_joinElem JNull = Returns []"
| "js_joinElem (JBool b) = js_toString (JBool b)"
| "js_joinElem (JNum n) = js_toString (JNum n)"
| "js_joinElem (JStr s) = js_toString (JStr s)"
| "js_joinElem (JArr xs) = js_toString (JArr xs)"
| "js_joinElem (JObj kvs) = js_toString (JObj kvs)"

text \<open>
  \<^verbatim>\<open>v > 0\<close>: \<open>undefined\<close> is \<open>NaN\<close> and compares false, \<open>null\<close> is \<open>0\<close>, \<open>true\<close> is
  \<open>1\<close>; other operands are outside the embedding.
\<close>

fun js_gt_zero :: "jsval \<Rightarrow> bool outcome" where
  "js_gt_zero (JNum n) = Returns (0 < n)"
| "js_gt_zero JUndefined = Returns False"
| "js_gt_zero JNull = Returns False"
| "js_gt_zero (JBool b) = Returns b"
| "js_gt_zero v = Unmodelled"

text \<open>
  The receiver of a method that only strings have (\<open>startsWith\<close>, \<open>replace\<close>, \<open>split\<close>),
  and of a method that only arrays have (\<open>map\<close>): on any other value the method is
  \<open>undefined\<close>, or a property that is not callable, and the call throws.
\<close>

fun string_receiver :: "jsval \<Rightarrow> string outcome" where
  "string_receiver (JStr s) = Returns s"
| "string_receiver v = TypeError"

fun array_receiver :: "jsval \<Rightarrow> jsval list outcome" where
  "array_receiver (JArr xs) = Returns xs"
| "array_receiver v = TypeError"

subsection \<open>String methods\<close>

definition startsWith :: "string \<Rightarrow> string \<Rightarrow> bool" where
  "startsWith s p = (take (length p) s = p)"

definition is_digit :: "char \<Rightarrow> bool" where
  "is_digit c = (c \<in> set ''0123456789'')"

text \<open>\<^verbatim>\<open>s.match(/^_[0-9]/)\<close>, used for its truthiness only.\<close>

fun match_underscore_digit :: "string \<Rightarrow> bool" where
  "match_underscore_digit (c # d # s) = (c = CHR ''_'' \<and> is_digit d)"
| "match_underscore_digit s = False"

definition charAt0 :: "string \<Rightarrow> string" where
  "charAt0 s = take 1 s"

text \<open>
  \<^verbatim>\<open>s.replace(/a|b/g, '')\<close> for two literal alternatives: scanning from the left, at each
  position the first alternative that matches is removed, and scanning goes on after it.
\<close>

function remove_all :: "string \<Rightarrow> string \<Rightarrow> string \<Rightarrow> string" where
  "remove_all a b [] = []"
| "remove_all a b (c # s) =
     (if a \<noteq> [] \<and> startsWith (c # s) a then remove_all a b (drop (length a) (c # s))
      else if b \<noteq> [] \<and> startsWith (c # s) b then remove_all a b (drop (length b) (c # s))
      else c # remove_all a b s)"
  by pat_completeness auto
termination
  by (relation "measure (\<lambda>(a, b, s). length s)") (auto simp: neq_Nil_conv)

text \<open>\<^verbatim>\<open>s.split(':')[0]\<close>: the part of \<open>s\<close> before its first colon.\<close>

definition split_colon_first :: "string \<Rightarrow> string" where
  "split_colon_first s = takeWhile (\<lambda>c. c \<noteq> CHR '':'') s"

section \<open>The canonical entry\<close>

text \<open>
  The objects the adapters build with object literals (lines 19, 28, 31, 35, 44--52, 54,
  55--62). A property that a literal does not write (\<open>translation\<close> in the Provider A
  adapter) reads as \<open>undefined\<close> and is \<open>JUndefined\<close> here. Values taken over from the
  payload keep whatever JSON value the payload had. \<open>example\<close> is \<open>None\<close> for a sense
  whose \<open>example\<close> property is missing or falsy, which \<^verbatim>\<open>applyDisplayPreferences\<close>
  tests for.
\<close>

record Pronunciation =
  lang :: string
  pron :: jsval
  url :: string

record Example =
  "text" :: jsval
  translation :: jsval

record Sense =
  pos :: jsval
  "text" :: jsval
  translation :: jsval
  example :: "Example list option"

record Entry =
  word :: jsval
  translation :: jsval
  pos :: "jsval list"
  verbs :: "jsval list"
  pronunciation :: "Pronunciation list"
  "definition" :: "Sense list"

text \<open>
  The settings read from \<^verbatim>\<open>chrome.storage.local\<close> (line 94), as far as the modelled
  code uses them. \<open>None\<close> is a key that is not in the store (\<open>undefined\<close>); a stored
  scope, source or language is a string and a stored example count is an integer.
\<close>

record Settings =
  preferredSource :: "string option"
  targetLanguage :: "string option"
  definitionScope :: "string option"
  exampleCount :: "int option"

section \<open>Provider A: \<^verbatim>\<open>normalizeMwData\<close> (lines 16--36)\<close>

text \<open>Line 24: the directory of the audio file.\<close>

definition subdir :: "string \<Rightarrow> string" where
  "subdir audioFile =
     (if startsWith audioFile ''bix'' then ''bix''
      else if startsWith audioFile ''gg'' then ''gg''
      else if match_underscore_digit audioFile then ''number''
      else charAt0 audioFile)"

text \<open>Line 25: the address of the audio file.\<close>

definition audioUrl :: "string \<Rightarrow> string" where
  "audioUrl audioFile =
     ''https://media.merriam-webster.com/audio/prons/en/us/wav/'' @ subdir audioFile
       @ ''/'' @ audioFile @ ''.wav''"

text \<open>Lines 22--26, once \<^verbatim>\<open>entry.hwi.prs[0]\<close> is known to be truthy.\<close>

definition mwSoundUrl :: "jsval \<Rightarrow> string outcome" where
  "mwSoundUrl prs0 =
     bind (get prs0 ''sound'') (\<lambda>sound.
       if truthy sound then
         bind (get sound ''audio'') (\<lambda>audioFile.
           bind (string_receiver audioFile) (\<lambda>a. Returns (audioUrl a)))
       else Returns [])"

text \<open>Lines 19--27.\<close>

definition mwPronunciation :: "jsval \<Rightarrow> Pronunciation outcome" where
  "mwPronunciation entry =
     (let pronunciation = \<lparr>lang = ''us'', pron = JStr [], url = []\<rparr> in
      bind (get entry ''hwi'') (\<lambda>hwi.
        if \<not> truthy hwi then Returns pronunciation
        else bind (get hwi ''prs'') (\<lambda>prs.
          if \<not> truthy prs then Returns pronunciation
          else bind (at prs 0) (\<lambda>prs0.
            if \<not> truthy prs0 then Returns pronunciation
            else bind (get prs0 ''mw'') (\<lambda>mw.
              bind (js_toString mw) (\<lambda>m.
                bind (mwSoundUrl prs0) (\<lambda>u.
                  Returns (pronunciation\<lparr>pron := JStr (''/'' @ m @ ''/''), url := u\<rparr>))))))))"

text \<open>Line 33, the callback of \<open>find\<close>: the first item whose element 0 is \<^verbatim>\<open>'vis'\<close>.\<close>

fun find_vis :: "jsval list \<Rightarrow> jsval outcome" where
  "find_vis [] = Returns JUndefined"
| "find_vis (item # items) =
     bind (at item 0) (\<lambda>tag. if tag = JStr ''vis'' then Returns item else find_vis items)"

text \<open>\<^verbatim>\<open>t.replace(/a|b/g, '')\<close> on a value.\<close>

definition replace_in :: "string \<Rightarrow> string \<Rightarrow> jsval \<Rightarrow> string outcome" where
  "replace_in a b t = bind (string_receiver t) (\<lambda>s. Returns (remove_all a b s))"

text \<open>Line 33, the body of the \<open>try\<close> block; \<open>sseq\<close> is \<^verbatim>\<open>entry.def[0].sseq\<close>.\<close>

definition mwVisExample :: "jsval \<Rightarrow> Example list outcome" where
  "mwVisExample sseq =
     bind (at sseq 0) (\<lambda>s0. bind (at s0 0) (\<lambda>s00. bind (at s00 1) (\<lambda>firstSense.
       bind (get firstSense ''dt'') (\<lambda>dt.
         case dt of
           JArr items \<Rightarrow>
             bind (find_vis items) (\<lambda>visExample.
               if truthy visExample then
                 bind (at visExample 1) (\<lambda>v1. bind (at v1 0) (\<lambda>v10. bind (get v10 ''t'') (\<lambda>t.
                   bind (replace_in ''{wi}'' ''{/wi}'' t) (\<lambda>exampleText.
                     Returns [\<lparr>Example.text = JStr exampleText,
                               Example.translation = JUndefined\<rparr>]))))
               else Returns [])
         | _ \<Rightarrow> Returns []))))"

text \<open>Lines 29--34: the examples pushed onto \<^verbatim>\<open>definition.example\<close>.\<close>

definition mwSupplHasExamples :: "jsval \<Rightarrow> bool outcome" where
  "mwSupplHasExamples entry =
     bind (get entry ''suppl'') (\<lambda>suppl.
       if \<not> truthy suppl then Returns False
       else bind (get suppl ''examples'') (\<lambda>examples.
         if \<not> truthy examples then Returns False
         else bind (get examples ''length'') js_gt_zero))"

definition mwExamples :: "jsval \<Rightarrow> Example list outcome" where
  "mwExamples entry =
     bind (mwSupplHasExamples entry) (\<lambda>has.
       if has then
         bind (get entry ''suppl'') (\<lambda>suppl. bind (get suppl ''examples'') (\<lambda>examples.
           bind (at examples 0) (\<lambda>e0. bind (get e0 ''t'') (\<lambda>t.
             bind (replace_in ''{it}'' ''{/it}'' t) (\<lambda>exampleText.
               Returns [\<lparr>Example.text = JStr exampleText,
                         Example.translation = JUndefined\<rparr>])))))
       else
         bind (get entry ''def'') (\<lambda>def.
           if \<not> truthy def then Returns []
           else bind (at def 0) (\<lambda>def0. bind (get def0 ''sseq'') (\<lambda>sseq.
             if truthy sseq then try_catch (mwVisExample sseq) [] else Returns []))))"

text \<open>
  Lines 16--36. \<open>None\<close> is the \<open>null\<close> of line 17. In line 28, \<^verbatim>\<open>entry.shortdef[0]\<close>
  throws when \<open>shortdef\<close> is missing; in line 35, \<^verbatim>\<open>entry.meta.id.split\<close> throws when
  \<open>meta\<close> is missing or \<open>id\<close> is not a string.
\<close>

definition normalizeMwData :: "jsval \<Rightarrow> Entry option outcome" where
  "normalizeMwData mwData =
     (if \<not> truthy mwData then Returns None
      else bind (get mwData ''length'') (\<lambda>len.
        if len = JNum 0 then Returns None
        else bind (at mwData 0) (\<lambda>entry.
          if \<not> typeof_object entry then Returns None
          else
            bind (mwPronunciation entry) (\<lambda>pronunciation.
            bind (get entry ''fl'') (\<lambda>fl.
            bind (get entry ''shortdef'') (\<lambda>shortdef.
            bind (at shortdef 0) (\<lambda>shortdef0.
            bind (mwExamples entry) (\<lambda>examples.
            bind (get entry ''meta'') (\<lambda>meta.
            bind (get meta ''id'') (\<lambda>ident.
            bind (string_receiver ident) (\<lambda>i.
              let definition =
                    \<lparr>Sense.pos = or_else fl (JStr ''unknown''),
                     Sense.text = or_else shortdef0 (JStr ''No definition found.''),
                     Sense.translation = JUndefined,
                     example = Some examples\<rparr>
              in Returns (Some
                   \<lparr>word = JStr (split_colon_first i),
                    Entry.translation = JUndefined,
                    Entry.pos = [Sense.pos definition],
                    verbs = [],
                    pronunciation = [pronunciation],
                    definition = [definition]\<rparr>))))))))))))"

section \<open>Provider B: \<^verbatim>\<open>normalizeGeminiData\<close> (lines 38--63)\<close>

text \<open>\<^verbatim>\<open>typeof v === 'string'\<close>.\<close>

fun typeof_string :: "jsval \<Rightarrow> bool" where
  "typeof_string (JStr s) = True"
| "typeof_string v = False"

text \<open>Lines 48--51, the callback applied to each example.\<close>

definition geminiExample :: "jsval \<Rightarrow> Example outcome" where
  "geminiExample ex =
     bind (if typeof_string ex then Returns ex else get ex ''text'') (\<lambda>t.
       bind (if typeof_object ex then get ex ''translation'' else Returns JNull) (\<lambda>tr.
         Returns \<lparr>Example.text = t, Example.translation = tr\<rparr>))"

text \<open>
  Lines 42--53, the callback applied to each form. \<^verbatim>\<open>form.definitions[0]\<close> throws when
  \<open>definitions\<close> is missing, and \<^verbatim>\<open>firstDef.definition\<close> throws when the list is empty.
  Truthy \<open>examples\<close> that are not an array throw.
\<close>

definition geminiForm :: "jsval \<Rightarrow> Sense outcome" where
  "geminiForm form =
     bind (get form ''definitions'') (\<lambda>definitions.
     bind (at definitions 0) (\<lambda>firstDef.
     bind (get form ''partOfSpeech'') (\<lambda>partOfSpeech.
     bind (get firstDef ''definition'') (\<lambda>d.
     bind (get firstDef ''definitionTranslation'') (\<lambda>definitionTranslation.
     bind (get firstDef ''examples'') (\<lambda>examples.
     bind (if truthy examples
           then bind (array_receiver examples) (mapM geminiExample)
           else Returns []) (\<lambda>example.
       Returns
         \<lparr>Sense.pos = or_else partOfSpeech (JStr ''unknown''),
          Sense.text = or_else d (JStr ''No definition text found.''),
          Sense.translation = or_else definitionTranslation JNull,
          example = Some example\<rparr>)))))))"

text \<open>Lines 38--63. \<open>None\<close> is the \<open>null\<close> of line 40.\<close>

definition normalizeGeminiData :: "jsval \<Rightarrow> Entry option outcome" where
  "normalizeGeminiData aiData =
     (if \<not> truthy aiData then Returns None
      else bind (get aiData ''forms'') (\<lambda>forms.
        if \<not> truthy forms then Returns None
        else bind (get forms ''length'') (\<lambda>len.
          if len = JNum 0 then Returns None
          else
            bind (bind (array_receiver forms) (mapM geminiForm)) (\<lambda>definitions.
            bind (get aiData ''pronunciation'') (\<lambda>p.
            bind (get aiData ''word'') (\<lambda>w.
            bind (get aiData ''phrase'') (\<lambda>phrase.
            bind (get aiData ''translation'') (\<lambda>tr.
              Returns (Some
                \<lparr>word = or_else w phrase,
                 Entry.translation = or_else tr JNull,
                 Entry.pos = map Sense.pos definitions,
                 verbs = [],
                 pronunciation = [\<lparr>lang = ''us'', pron = or_else p (JStr []), url = []\<rparr>],
                 definition = definitions\<rparr>)))))))))"

section \<open>The preference projector: \<^verbatim>\<open>applyDisplayPreferences\<close> (lines 67--86)\<close>

text \<open>\<^verbatim>\<open>s || d\<close> for a setting that is a string when it is there.\<close>

definition str_or :: "string option \<Rightarrow> string \<Rightarrow> string" where
  "str_or s d = (case s of None \<Rightarrow> d | Some v \<Rightarrow> if v = [] then d else v)"

text \<open>
  \<^verbatim>\<open>xs.slice(0, count)\<close>: a negative \<open>count\<close> is taken from the end of the array.
\<close>

definition slice0 :: "'a list \<Rightarrow> int \<Rightarrow> 'a list" where
  "slice0 xs count =
     (let len = int (length xs);
          final = (if count < 0 then max (len + count) 0 else min count len)
      in take (nat final) xs)"

text \<open>
  Lines 77--83, the callback applied to each retained definition: \<open>newDef\<close> is a copy of
  \<open>def\<close>, and its \<open>example\<close> is replaced when it is there and longer than \<open>count\<close>.
\<close>

definition limitExamples :: "int \<Rightarrow> Sense \<Rightarrow> Sense" where
  "limitExamples count def =
     (let newDef = def in
      case example newDef of
        None \<Rightarrow> newDef
      | Some ex \<Rightarrow>
          if int (length ex) > count then newDef\<lparr>example := Some (slice0 ex count)\<rparr>
          else newDef)"

definition applyDisplayPreferences :: "Entry \<Rightarrow> Settings \<Rightarrow> Entry" where
  "applyDisplayPreferences data settings =
     (let scope = str_or (definitionScope settings) ''relevant'';
          count = (case exampleCount settings of Some c \<Rightarrow> c | None \<Rightarrow> 1);
          definitionsToUse = definition data;
          definitionsToUse =
            (if scope = ''relevant'' \<and> length definitionsToUse > 1
             then [definitionsToUse ! 0] else definitionsToUse);
          finalDefinitions = map (limitExamples count) definitionsToUse
      in data\<lparr>definition := finalDefinitions\<rparr>)"

section \<open>The cache key of a lexical lookup (lines 92--98)\<close>

text \<open>\<^verbatim>\<open>${v}\<close> for a setting: \<open>undefined\<close> when the key is not in the store.\<close>

definition str_of_scope :: "string option \<Rightarrow> string" where
  "str_of_scope s = (case s of None \<Rightarrow> ''undefined'' | Some v \<Rightarrow> v)"

definition str_of_count :: "int option \<Rightarrow> string" where
  "str_of_count c = (case c of None \<Rightarrow> ''undefined'' | Some n \<Rightarrow> show_int n)"

text \<open>
  Line 98, the template literal, as a function of the five values it interpolates:
  \<open>source\<close>, \<open>word\<close>, \<^verbatim>\<open>settings.definitionScope\<close>, \<^verbatim>\<open>settings.exampleCount\<close> and
  \<open>targetLanguage\<close>.
\<close>

definition cacheKeyOf ::
  "string \<Rightarrow> string \<Rightarrow> string option \<Rightarrow> int option \<Rightarrow> string \<Rightarrow> string" where
  "cacheKeyOf source word' scope count targetLang =
     ''qdp_'' @ source @ ''_'' @ word' @ ''_'' @ str_of_scope scope @ ''_''
       @ str_of_count count @ ''_'' @ targetLang"

text \<open>
  Lines 95--98; \<open>word'\<close> is the \<open>word\<close> of line 92, the term of the message in lower case.
\<close>

definition displaySettingsCacheKey :: "Settings \<Rightarrow> string \<Rightarrow> string" where
  "displaySettingsCacheKey settings word' =
     (let source = str_or (preferredSource settings) ''cambridge'';
          targetLang = str_or (targetLanguage settings) ''none''
      in cacheKeyOf source word' (definitionScope settings) (exampleCount settings) targetLang)"

section \<open>The projector on a store of objects\<close>

text \<open>
  \<^verbatim>\<open>applyDisplayPreferences\<close> copies arrays and objects (lines 71, 78, 85) and assigns to
  a property (line 80). To say what it leaves alone, the same lines are modelled a
  second time on an explicit store: an address is an index into the list of cells, a
  cell is an object or an array, and a property or element is a JSON value held in place
  (\<open>Val\<close>) or a reference to a cell (\<open>Ref\<close>). Allocation appends a cell. The result is
  \<open>None\<close> when the store does not hold an entry at \<open>data\<close>: an object whose
  \<open>definition\<close> refers to an array of references to objects, the \<open>example\<close> of each being
  falsy or a reference to an array.
\<close>

type_synonym addr = nat

datatype hval = Val jsval | Ref addr

datatype cell = Obj "(string \<times> hval) list" | Arr "hval list"

type_synonym store = "cell list"

definition alloc :: "cell \<Rightarrow> store \<Rightarrow> addr \<times> store" where
  "alloc c h = (length h, h @ [c])"

definition field :: "(string \<times> hval) list \<Rightarrow> string \<Rightarrow> hval" where
  "field fs k = (case map_of fs k of Some v \<Rightarrow> v | None \<Rightarrow> Val JUndefined)"

fun set_field :: "(string \<times> hval) list \<Rightarrow> string \<Rightarrow> hval \<Rightarrow> (string \<times> hval) list" where
  "set_field [] k v = [(k, v)]"
| "set_field ((k', v') # fs) k v =
     (if k' = k then (k, v) # fs else (k', v') # set_field fs k v)"

text \<open>\<^verbatim>\<open>o.k = v\<close> for the object at address \<open>a\<close>.\<close>

definition write_field :: "addr \<Rightarrow> string \<Rightarrow> hval \<Rightarrow> store \<Rightarrow> store" where
  "write_field a k v h =
     (if a < length h then
        (case h ! a of Obj fs \<Rightarrow> h[a := Obj (set_field fs k v)] | Arr xs \<Rightarrow> h)
      else h)"

text \<open>The object, and the array, that a value refers to.\<close>

definition object_at :: "store \<Rightarrow> hval \<Rightarrow> (string \<times> hval) list option" where
  "object_at h v =
     (case v of
        Ref a \<Rightarrow> if a < length h then (case h ! a of Obj fs \<Rightarrow> Some fs | Arr xs \<Rightarrow> None) else None
      | Val w \<Rightarrow> None)"

definition array_at :: "store \<Rightarrow> hval \<Rightarrow> hval list option" where
  "array_at h v =
     (case v of
        Ref a \<Rightarrow> if a < length h then (case h ! a of Arr xs \<Rightarrow> Some xs | Obj fs \<Rightarrow> None) else None
      | Val w \<Rightarrow> None)"

text \<open>
  Lines 77--83: \<^verbatim>\<open>{ ...def }\<close> allocates the copy \<open>newDef\<close>, \<open>slice\<close> allocates a new
  array, and the assignment of line 80 writes to \<open>newDef\<close>.
\<close>

definition limitExamples_store :: "int \<Rightarrow> hval \<Rightarrow> store \<Rightarrow> hval option \<times> store" where
  "limitExamples_store count def h =
     (case object_at h def of
        None \<Rightarrow> (None, h)
      | Some fs \<Rightarrow>
          (let (newDef, h1) = alloc (Obj fs) h in
           case field fs ''example'' of
             Val v \<Rightarrow> if truthy v then (None, h1) else (Some (Ref newDef), h1)
           | Ref x \<Rightarrow>
               (case array_at h1 (Ref x) of
                  None \<Rightarrow> (None, h1)
                | Some ex \<Rightarrow>
                    if int (length ex) > count then
                      (let (sliced, h2) = alloc (Arr (slice0 ex count)) h1
                       in (Some (Ref newDef), write_field newDef ''example'' (Ref sliced) h2))
                    else (Some (Ref newDef), h1))))"

text \<open>\<open>map\<close> with a callback that allocates: the store is threaded through the calls.\<close>

fun map_store ::
  "(hval \<Rightarrow> store \<Rightarrow> hval option \<times> store) \<Rightarrow> hval list \<Rightarrow> store \<Rightarrow> hval list option \<times> store" where
  "map_store f [] h = (Some [], h)"
| "map_store f (x # xs) h =
     (case f x h of
        (None, h1) \<Rightarrow> (None, h1)
      | (Some y, h1) \<Rightarrow>
          (case map_store f xs h1 of
             (None, h2) \<Rightarrow> (None, h2)
           | (Some ys, h2) \<Rightarrow> (Some (y # ys), h2)))"

text \<open>
  Lines 67--86: line 71 allocates the copy of \<^verbatim>\<open>data.definition\<close>, line 74 a one-element
  array, \<open>map\<close> the array of new definitions, and line 85 the object returned.
\<close>

definition applyDisplayPreferences_store :: "hval \<Rightarrow> Settings \<Rightarrow> store \<Rightarrow> hval option \<times> store" where
  "applyDisplayPreferences_store data settings h =
     (let scope = str_or (definitionScope settings) ''relevant'';
          count = (case exampleCount settings of Some c \<Rightarrow> c | None \<Rightarrow> 1)
      in case object_at h data of
        None \<Rightarrow> (None, h)
      | Some fs \<Rightarrow>
          (case array_at h (field fs ''definition'') of
             None \<Rightarrow> (None, h)
           | Some defs \<Rightarrow>
               (let (definitionsToUse, h1) = alloc (Arr defs) h;
                    (definitionsToUse, h2) =
                      (if scope = ''relevant'' \<and> length defs > 1
                       then alloc (Arr [defs ! 0]) h1 else (definitionsToUse, h1))
                in case array_at h2 (Ref definitionsToUse) of
                  None \<Rightarrow> (None, h2)
                | Some kept \<Rightarrow>
                    (case map_store (limitExamples_store count) kept h2 of
                       (None, h3) \<Rightarrow> (None, h3)
                     | (Some newDefs, h3) \<Rightarrow>
                         (let (finalDefinitions, h4) = alloc (Arr newDefs) h3;
                              (result, h5) =
                                alloc (Obj (set_field fs ''definition'' (Ref finalDefinitions))) h4
                          in (Some (Ref result), h5))))))"

section \<open>Notions used to state the properties\<close>

text \<open>The local variables \<open>scope\<close> (line 68) and \<open>count\<close> (line 69).\<close>

definition scopeOf :: "Settings \<Rightarrow> string" where
  "scopeOf settings = str_or (definitionScope settings) ''relevant''"

definition countOf :: "Settings \<Rightarrow> int" where
  "countOf settings = (case exampleCount settings of Some c \<Rightarrow> c | None \<Rightarrow> 1)"

text \<open>
  The display preferences of the data model have a non-negative example count; the key
  may also be missing from the store.
\<close>

definition nonneg_count :: "Settings \<Rightarrow> bool" where
  "nonneg_count settings = (case exampleCount settings of Some c \<Rightarrow> 0 \<le> c | None \<Rightarrow> True)"

text \<open>The senses kept by lines 71--75, before their examples are cut.\<close>

definition retained :: "Entry \<Rightarrow> Settings \<Rightarrow> Sense list" where
  "retained data settings =
     (if scopeOf settings = ''relevant'' then take 1 (definition data) else definition data)"

text \<open>Two senses are the same sense when they differ in their examples at most.\<close>

definition same_sense :: "Sense \<Rightarrow> Sense \<Rightarrow> bool" where
  "same_sense a b =
     (Sense.pos a = Sense.pos b \<and> Sense.text a = Sense.text b
      \<and> Sense.translation a = Sense.translation b)"

subsection \<open>The payloads the adapters are written for\<close>

text \<open>
  The shape of a payload in which every property that the adapter reads without a test
  is there and has the type the adapter uses it at. A property that the adapter tests
  first is \<open>optional\<close>: falsy, or of the shape given for it.

  Provider A (\<open>mw_payload_shape\<close>): the payload is a list that is not empty, and its
  first element is an object in which
  \<^item> \<open>meta\<close> is an object whose \<open>id\<close> is a string, and \<open>shortdef\<close> is a list;
  \<^item> \<open>hwi\<close> is falsy, or an object whose \<open>prs\<close> is falsy, or an empty list, or a list
    that begins with an object whose \<open>mw\<close> is a string or missing and whose \<open>sound\<close> is
    falsy or an object with a string \<open>audio\<close>;
  \<^item> \<open>suppl\<close> is falsy, or an object whose \<open>examples\<close> are falsy, or an empty list, or a
    list that begins with an object with a string \<open>t\<close>;
  \<^item> \<open>def\<close> is falsy, or a list that begins with an object.

  Provider B (\<open>gemini_payload_shape\<close>): the payload is an object whose \<open>forms\<close> are a
  list that is not empty; each form is an object whose \<open>definitions\<close> are a list that
  begins with an object, the \<open>examples\<close> of which are falsy or a list of strings and
  objects.
\<close>

definition optional :: "(jsval \<Rightarrow> bool) \<Rightarrow> jsval \<Rightarrow> bool" where
  "optional P v = (\<not> truthy v \<or> P v)"

fun is_array :: "jsval \<Rightarrow> bool" where
  "is_array (JArr xs) = True"
| "is_array v = False"

fun mw_sound_shape :: "jsval \<Rightarrow> bool" where
  "mw_sound_shape (JObj kvs) = typeof_string (lookup kvs ''audio'')"
| "mw_sound_shape v = False"

fun mw_prs_shape :: "jsval \<Rightarrow> bool" where
  "mw_prs_shape (JArr []) = True"
| "mw_prs_shape (JArr (JObj kvs # ps)) =
     ((typeof_string (lookup kvs ''mw'') \<or> lookup kvs ''mw'' = JUndefined)
      \<and> optional mw_sound_shape (lookup kvs ''sound''))"
| "mw_prs_shape v = False"

fun mw_hwi_shape :: "jsval \<Rightarrow> bool" where
  "mw_hwi_shape (JObj kvs) = optional mw_prs_shape (lookup kvs ''prs'')"
| "mw_hwi_shape v = False"

fun mw_examples_shape :: "jsval \<Rightarrow> bool" where
  "mw_examples_shape (JArr []) = True"
| "mw_examples_shape (JArr (JObj kvs # es)) = typeof_string (lookup kvs ''t'')"
| "mw_examples_shape v = False"

fun mw_suppl_shape :: "jsval \<Rightarrow> bool" where
  "mw_suppl_shape (JObj kvs) = optional mw_examples_shape (lookup kvs ''examples'')"
| "mw_suppl_shape v = False"

fun mw_def_shape :: "jsval \<Rightarrow> bool" where
  "mw_def_shape (JArr (JObj kvs # ds)) = True"
| "mw_def_shape v = False"

fun mw_meta_shape :: "jsval \<Rightarrow> bool" where
  "mw_meta_shape (JObj kvs) = typeof_string (lookup kvs ''id'')"
| "mw_meta_shape v = False"

fun mw_record_shape :: "jsval \<Rightarrow> bool" where
  "mw_record_shape (JObj kvs) =
     (mw_meta_shape (lookup kvs ''meta'') \<and> is_array (lookup kvs ''shortdef'')
      \<and> optional mw_hwi_shape (lookup kvs ''hwi'')
      \<and> optional mw_suppl_shape (lookup kvs ''suppl'')
      \<and> optional mw_def_shape (lookup kvs ''def''))"
| "mw_record_shape v = False"

fun mw_payload_shape :: "jsval \<Rightarrow> bool" where
  "mw_payload_shape (JArr (r # rs)) = mw_record_shape r"
| "mw_payload_shape v = False"







subsection \<open>Other notions\<close>

text \<open>A field of the cache key that does not contain the delimiter \<open>_\<close>.\<close>

definition no_delim :: "string \<Rightarrow> bool" where
  "no_delim s = (CHR ''_'' \<notin> set s)"

text \<open>The parallel arrays of an entry: one part of speech for each sense.\<close>

definition parallel_arrays :: "Entry \<Rightarrow> bool" where
  "parallel_arrays e = (length (Entry.pos e) = length (definition e))"

subsection \<open>Reading an entry from the store\<close>

text \<open>
  Store \<open>h'\<close> extends store \<open>h\<close> when every cell of \<open>h\<close> is in \<open>h'\<close> at its address,
  unchanged. \<open>entry_at\<close> reads the entry that an address stands for: the senses and
  their examples through the references, the other properties from values held in place.
\<close>

definition extends :: "store \<Rightarrow> store \<Rightarrow> bool" where
  "extends h h' = (take (length h) h' = h)"

fun all_some :: "('a \<Rightarrow> 'b option) \<Rightarrow> 'a list \<Rightarrow> 'b list option" where
  "all_some f [] = Some []"
| "all_some f (x # xs) =
     (case f x of
        None \<Rightarrow> None
      | Some y \<Rightarrow> (case all_some f xs of None \<Rightarrow> None | Some ys \<Rightarrow> Some (y # ys)))"

fun plain :: "hval \<Rightarrow> jsval option" where
  "plain (Val v) = Some v"
| "plain (Ref a) = None"

fun plain_array :: "hval \<Rightarrow> jsval list option" where
  "plain_array (Val (JArr xs)) = Some xs"
| "plain_array v = None"

fun example_of :: "hval \<Rightarrow> Example option" where
  "example_of (Val (JObj kvs)) =
     Some \<lparr>Example.text = lookup kvs ''text'', Example.translation = lookup kvs ''translation''\<rparr>"
| "example_of v = None"

fun pronunciation_of :: "jsval \<Rightarrow> Pronunciation option" where
  "pronunciation_of (JObj kvs) =
     (case (lookup kvs ''lang'', lookup kvs ''url'') of
        (JStr l, JStr u) \<Rightarrow> Some \<lparr>lang = l, pron = lookup kvs ''pron'', url = u\<rparr>
      | _ \<Rightarrow> None)"
| "pronunciation_of v = None"

definition examples_at :: "store \<Rightarrow> hval \<Rightarrow> Example list option option" where
  "examples_at h v =
     (case v of
        Val w \<Rightarrow> if truthy w then None else Some None
      | Ref x \<Rightarrow> (case array_at h (Ref x) of
                   None \<Rightarrow> None
                 | Some ex \<Rightarrow> map_option Some (all_some example_of ex)))"

definition sense_at :: "store \<Rightarrow> hval \<Rightarrow> Sense option" where
  "sense_at h v =
     (case object_at h v of
        None \<Rightarrow> None
      | Some fs \<Rightarrow>
          (case (plain (field fs ''pos''), plain (field fs ''text''),
                 plain (field fs ''translation''), examples_at h (field fs ''example'')) of
             (Some p, Some t, Some tr, Some ex) \<Rightarrow>
               Some \<lparr>Sense.pos = p, Sense.text = t, Sense.translation = tr, example = ex\<rparr>
           | _ \<Rightarrow> None))"

definition senses_at :: "store \<Rightarrow> hval \<Rightarrow> Sense list option" where
  "senses_at h v =
     (case array_at h v of None \<Rightarrow> None | Some ds \<Rightarrow> all_some (sense_at h) ds)"

definition entry_at :: "store \<Rightarrow> hval \<Rightarrow> Entry option" where
  "entry_at h v =
     (case object_at h v of
        None \<Rightarrow> None
      | Some fs \<Rightarrow>
          (case (plain (field fs ''word''), plain (field fs ''translation''),
                 plain_array (field fs ''pos''), plain_array (field fs ''verbs''),
                 plain_array (field fs ''pronunciation''),
                 senses_at h (field fs ''definition'')) of
             (Some w, Some tr, Some ps, Some vs, Some prs, Some ds) \<Rightarrow>
               (case all_some pronunciation_of prs of
                  None \<Rightarrow> None
                | Some prons \<Rightarrow>
                    Some \<lparr>word = w, Entry.translation = tr, Entry.pos = ps, verbs = vs,
                          pronunciation = prons, definition = ds\<rparr>)
           | _ \<Rightarrow> None))"

subsection \<open>Sample data\<close>

definition ex_of :: "string \<Rightarrow> Example" where
  "ex_of s = \<lparr>Example.text = JStr s, Example.translation = JNull\<rparr>"

definition run_entry :: Entry where
  "run_entry =
     \<lparr>word = JStr ''run'', Entry.translation = JNull,
      Entry.pos = [JStr ''verb'', JStr ''noun''], verbs = [],
      pronunciation = [\<lparr>lang = ''us'', pron = JStr [], url = []\<rparr>],
      definition =
        [\<lparr>Sense.pos = JStr ''verb'', Sense.text = JStr ''move fast'',
          Sense.translation = JNull,
          example = Some [ex_of ''He can run fast.'', ex_of ''Run!'', ex_of ''They ran.'']\<rparr>,
         \<lparr>Sense.pos = JStr ''noun'', Sense.text = JStr ''an act of running'',
          Sense.translation = JNull,
          example = Some [ex_of ''a morning run'']\<rparr>]\<rparr>"

definition settings_of :: "string option \<Rightarrow> int option \<Rightarrow> Settings" where
  "settings_of scope count =
     \<lparr>preferredSource = None, targetLanguage = None,
      definitionScope = scope, exampleCount = count\<rparr>"

text \<open>The entry \<open>run_entry\<close> in a store, at address \<open>0\<close>.\<close>

definition run_store :: store where
  "run_store =
     [Obj [(''word'', Val (JStr ''run'')), (''translation'', Val JNull),
           (''pos'', Val (JArr [JStr ''verb'', JStr ''noun''])), (''verbs'', Val (JArr [])),
           (''pronunciation'', Val (JArr
              [JObj [(''lang'', JStr ''us''), (''pron'', JStr []), (''url'', JStr [])]])),
           (''definition'', Ref 1)],
      Arr [Ref 2, Ref 4],
      Obj [(''pos'', Val (JStr ''verb'')), (''text'', Val (JStr ''move fast'')),
           (''translation'', Val JNull), (''example'', Ref 3)],
      Arr [Val (JObj [(''text'', JStr ''He can run fast.''), (''translation'', JNull)]),
           Val (JObj [(''text'', JStr ''Run!''), (''translation'', JNull)]),
           Val (JObj [(''text'', JStr ''They ran.''), (''translation'', JNull)])],
      Obj [(''pos'', Val (JStr ''noun'')), (''text'', Val (JStr ''an act of running'')),
           (''translation'', Val JNull), (''example'', Ref 5)],
      Arr [Val (JObj [(''text'', JStr ''a morning run''), (''translation'', JNull)])]]"

section \<open>Properties of the preference projector\<close>

lemma applyDisplayPreferences_eq:
  "applyDisplayPreferences e p
     = e\<lparr>definition := map (limitExamples (countOf p)) (retained e p)\<rparr>"
  by (cases "definition e")
     (auto simp: applyDisplayPreferences_def retained_def countOf_def scopeOf_def Let_def)

lemma definition_apply:
  "definition (applyDisplayPreferences e p) = map (limitExamples (countOf p)) (retained e p)"
  by (simp add: applyDisplayPreferences_eq)

lemma pos_apply: "Entry.pos (applyDisplayPreferences e p) = Entry.pos e"
  by (simp add: applyDisplayPreferences_eq)

lemma slice0_nonneg: "0 \<le> k \<Longrightarrow> slice0 xs k = take (nat k) xs"
  by (auto simp: slice0_def Let_def min_def)

lemma limitExamples_example:
  "0 \<le> k \<Longrightarrow> example (limitExamples k d) = map_option (take (nat k)) (example d)"
  by (auto simp: limitExamples_def Let_def slice0_nonneg split: option.splits)

lemma same_sense_limitExamples: "same_sense (limitExamples k d) d"
  by (simp add: same_sense_def limitExamples_def Let_def split: option.splits)

lemma limitExamples_idem:
  "0 \<le> k \<Longrightarrow> limitExamples k (limitExamples k d) = limitExamples k d"
  by (auto simp: limitExamples_def Let_def slice0_nonneg split: option.splits)

lemma retained_idem:
  "retained (e\<lparr>definition := map f (retained e p)\<rparr>) p = map f (retained e p)"
  by (auto simp: retained_def take_map)

lemma nonneg_countOf: "nonneg_count p \<Longrightarrow> 0 \<le> countOf p"
  by (simp add: nonneg_count_def countOf_def split: option.splits)

lemma length_retained_le: "length (retained e p) \<le> length (definition e)"
  by (simp add: retained_def)

lemma retained_nth: "i < length (retained e p) \<Longrightarrow> retained e p ! i = definition e ! i"
  by (simp add: retained_def split: if_splits)

lemma run_entry_simps:
  "definition run_entry =
     [\<lparr>Sense.pos = JStr ''verb'', Sense.text = JStr ''move fast'',
       Sense.translation = JNull,
       example = Some [ex_of ''He can run fast.'', ex_of ''Run!'', ex_of ''They ran.'']\<rparr>,
      \<lparr>Sense.pos = JStr ''noun'', Sense.text = JStr ''an act of running'',
       Sense.translation = JNull,
       example = Some [ex_of ''a morning run'']\<rparr>]"
  "Entry.pos run_entry = [JStr ''verb'', JStr ''noun'']"
  by (simp_all add: run_entry_def)

lemma settings_of_simps:
  "scopeOf (settings_of None c) = ''relevant''"
  "scopeOf (settings_of (Some ''relevant'') c) = ''relevant''"
  "scopeOf (settings_of (Some ''all'') c) = ''all''"
  "countOf (settings_of s None) = 1"
  "countOf (settings_of s (Some k)) = k"
  "nonneg_count (settings_of s None)"
  "nonneg_count (settings_of s (Some k)) = (0 \<le> k)"
  "exampleCount (settings_of s c) = c"
  "definitionScope (settings_of s c) = s"
  by (simp_all add: settings_of_def scopeOf_def countOf_def nonneg_count_def str_or_def)

text \<open>
  Claim C4. Projecting twice with the same preferences gives what projecting once gives,
  for every entry and for all display preferences (whose example count, when it is set,
  is not negative).
\<close>

theorem projection_idempotent:
  assumes "nonneg_count p"
  shows "applyDisplayPreferences (applyDisplayPreferences e p) p = applyDisplayPreferences e p"
  using nonneg_countOf [OF assms]
  by (simp add: applyDisplayPreferences_eq retained_idem limitExamples_idem)

theorem projection_idempotent_witness:
  "nonneg_count (settings_of (Some ''relevant'') (Some 2))
   \<and> applyDisplayPreferences
         (applyDisplayPreferences run_entry (settings_of (Some ''relevant'') (Some 2)))
         (settings_of (Some ''relevant'') (Some 2))
       = applyDisplayPreferences run_entry (settings_of (Some ''relevant'') (Some 2))"
  using projection_idempotent [of "settings_of (Some ''relevant'') (Some 2)" run_entry]
  by (simp add: settings_of_simps)

text \<open>
  A negative count is outside the data model. Line 80 then drops examples from the end
  of the list at each call, so that projecting twice is not projecting once.
\<close>

lemma negative_count_drops_from_the_end:
  "applyDisplayPreferences
     (applyDisplayPreferences run_entry (settings_of (Some ''all'') (Some (- 1))))
     (settings_of (Some ''all'') (Some (- 1)))
   \<noteq> applyDisplayPreferences run_entry (settings_of (Some ''all'') (Some (- 1)))"
  by (simp add: applyDisplayPreferences_eq retained_def settings_of_simps run_entry_def
      limitExamples_def slice0_def Let_def)

text \<open>
  Claim C5. With scope \<open>relevant\<close> an entry of \<open>N\<close> senses is projected to \<open>min 1 N\<close>
  senses, the first sense when there is one; with scope \<open>all\<close> it keeps its \<open>N\<close> senses
  in their order. In both cases each sense kept is the original one with its examples
  limited.
\<close>

theorem scope_projection:
  "(scopeOf p = ''relevant'' \<longrightarrow>
      length (definition (applyDisplayPreferences e p)) = min 1 (length (definition e))
      \<and> list_all2 same_sense (definition (applyDisplayPreferences e p)) (take 1 (definition e))
      \<and> definition (applyDisplayPreferences e p)
          = map (limitExamples (countOf p)) (take 1 (definition e)))
   \<and> (scopeOf p = ''all'' \<longrightarrow>
      length (definition (applyDisplayPreferences e p)) = length (definition e)
      \<and> list_all2 same_sense (definition (applyDisplayPreferences e p)) (definition e)
      \<and> definition (applyDisplayPreferences e p)
          = map (limitExamples (countOf p)) (definition e))"
  by (simp add: definition_apply retained_def list_all2_conv_all_nth same_sense_limitExamples
      min_def)

theorem scope_projection_witness:
  "scopeOf (settings_of (Some ''relevant'') (Some 2)) = ''relevant''
   \<and> length (definition
        (applyDisplayPreferences run_entry (settings_of (Some ''relevant'') (Some 2)))) = 1
   \<and> scopeOf (settings_of (Some ''all'') (Some 2)) = ''all''
   \<and> length (definition
        (applyDisplayPreferences run_entry (settings_of (Some ''all'') (Some 2)))) = 2"
  using scope_projection [of "settings_of (Some ''relevant'') (Some 2)" run_entry]
    scope_projection [of "settings_of (Some ''all'') (Some 2)" run_entry]
  by (simp add: settings_of_simps run_entry_simps)

text \<open>
  Claim C6. Let the example count be \<open>k\<close>, either set to \<open>k\<close> (not negative) or missing
  with \<open>k = 1\<close>. Then sense \<open>i\<close> of the projected entry is sense \<open>i\<close> of the entry with
  its examples cut to the first \<open>k\<close> (all of them when there are at most \<open>k\<close>), so it has
  at most \<open>k\<close> examples.
\<close>

theorem example_limit:
  assumes "exampleCount p = Some k \<and> 0 \<le> k \<or> exampleCount p = None \<and> k = 1"
    and "i < length (definition (applyDisplayPreferences e p))"
  shows "i < length (definition e)
    \<and> same_sense (definition (applyDisplayPreferences e p) ! i) (definition e ! i)
    \<and> example (definition (applyDisplayPreferences e p) ! i)
        = map_option (take (nat k)) (example (definition e ! i))
    \<and> (\<forall>xs. example (definition (applyDisplayPreferences e p) ! i) = Some xs
          \<longrightarrow> length xs \<le> nat k)"
proof -
  from assms(1) have k: "countOf p = k" "0 \<le> k"
    by (auto simp: countOf_def)
  from assms(2) have i: "i < length (retained e p)"
    by (simp add: definition_apply)
  with length_retained_le [of e p] have 1: "i < length (definition e)"
    by simp
  from i have 2: "same_sense (definition (applyDisplayPreferences e p) ! i) (definition e ! i)"
    by (simp add: definition_apply retained_nth same_sense_limitExamples)
  from i k have 3: "example (definition (applyDisplayPreferences e p) ! i)
      = map_option (take (nat k)) (example (definition e ! i))"
    by (simp add: definition_apply retained_nth limitExamples_example)
  have 4: "length xs \<le> nat k"
    if "example (definition (applyDisplayPreferences e p) ! i) = Some xs" for xs
    using that 3 by (cases "example (definition e ! i)") auto
  from 1 2 3 4 show ?thesis
    by blast
qed

theorem example_limit_witness:
  "exampleCount (settings_of (Some ''all'') (Some 2)) = Some 2 \<and> (0::int) \<le> 2
   \<and> example (definition
        (applyDisplayPreferences run_entry (settings_of (Some ''all'') (Some 2))) ! 0)
      = Some [ex_of ''He can run fast.'', ex_of ''Run!'']
   \<and> exampleCount (settings_of (Some ''all'') None) = None
   \<and> example (definition
        (applyDisplayPreferences run_entry (settings_of (Some ''all'') None)) ! 0)
      = Some [ex_of ''He can run fast.'']"
  using example_limit [of "settings_of (Some ''all'') (Some 2)" 2 0 run_entry]
    example_limit [of "settings_of (Some ''all'') None" 1 0 run_entry]
  by (simp add: settings_of_simps run_entry_simps definition_apply retained_def)

section \<open>Properties of the cache key\<close>

lemma digit_char_cases:
  "d < 10 \<Longrightarrow> d = 0 \<or> d = 1 \<or> d = 2 \<or> d = 3 \<or> d = 4 \<or> d = 5 \<or> d = 6 \<or> d = 7 \<or> d = 8 \<or> d = (9::nat)"
  by arith

lemma digit_char_inj:
  assumes "a < 10" "b < 10" "digit_char a = digit_char b"
  shows "a = b"
  using digit_char_cases [OF assms(1)] digit_char_cases [OF assms(2)] assms(3)
  by (auto simp: digit_char_def)

lemma is_digit_digit_char: "d < 10 \<Longrightarrow> is_digit (digit_char d)"
  using digit_char_cases [of d] by (auto simp: digit_char_def is_digit_def)

lemma show_nat_digits: "c \<in> set (show_nat n) \<Longrightarrow> is_digit c"
proof (induction n rule: show_nat.induct)
  case (1 n)
  show ?case
  proof (cases "n < 10")
    case True
    with "1.prems" show ?thesis
      by (simp add: show_nat.simps [of n] is_digit_digit_char)
  next
    case False
    with "1.prems" "1.IH" show ?thesis
      by (auto simp: show_nat.simps [of n] is_digit_digit_char)
  qed
qed

lemma show_nat_not_Nil: "show_nat n \<noteq> []" "[] \<noteq> show_nat n"
  by (simp_all add: show_nat.simps [of n])

lemma show_nat_inj: "show_nat m = show_nat n \<Longrightarrow> m = n"
proof (induction m arbitrary: n rule: show_nat.induct)
  case (1 m)
  show ?case
  proof (cases "m < 10")
    case m: True
    show ?thesis
    proof (cases "n < 10")
      case True
      with m "1.prems" show ?thesis
        by (simp add: show_nat.simps [of m] show_nat.simps [of n] digit_char_inj)
    next
      case False
      with m "1.prems" show ?thesis
        by (simp add: show_nat.simps [of m] show_nat.simps [of n] show_nat_not_Nil)
    qed
  next
    case m: False
    show ?thesis
    proof (cases "n < 10")
      case True
      with m "1.prems" show ?thesis
        by (simp add: show_nat.simps [of m] show_nat.simps [of n] show_nat_not_Nil)
    next
      case False
      with m "1.prems" have eq: "show_nat (m div 10) = show_nat (n div 10)"
        and d: "digit_char (m mod 10) = digit_char (n mod 10)"
        by (simp_all add: show_nat.simps [of m] show_nat.simps [of n])
      from "1.IH" [OF m eq] have "m div 10 = n div 10" .
      moreover from d have "m mod 10 = n mod 10"
        by (simp add: digit_char_inj)
      ultimately show ?thesis
        by (metis div_mult_mod_eq)
    qed
  qed
qed

lemma show_nat_no_minus: "show_nat n \<noteq> CHR ''-'' # s"
proof
  assume "show_nat n = CHR ''-'' # s"
  then have "CHR ''-'' \<in> set (show_nat n)" by simp
  then have "is_digit CHR ''-''" by (rule show_nat_digits)
  then show False by (simp add: is_digit_def)
qed

lemma show_nat_no_minus': "CHR ''-'' # s \<noteq> show_nat n"
  using show_nat_no_minus [of n s] by auto

lemma show_int_inj: "show_int i = show_int j \<Longrightarrow> i = j"
  by (auto simp: show_int_def show_nat_no_minus show_nat_no_minus' dest!: show_nat_inj
      split: if_splits)

lemma show_int_not_undefined: "show_int i \<noteq> ''undefined''"
proof
  assume a: "show_int i = ''undefined''"
  show False
  proof (cases "i < 0")
    case True
    with a show False by (simp add: show_int_def)
  next
    case False
    with a have "CHR ''u'' \<in> set (show_nat (nat i))" by (simp add: show_int_def)
    then have "is_digit CHR ''u''" by (rule show_nat_digits)
    then show False by (simp add: is_digit_def)
  qed
qed

lemma str_of_count_inj: "str_of_count c = str_of_count c' \<Longrightarrow> c = c'"
  using show_int_not_undefined
  by (auto simp: str_of_count_def dest: show_int_inj split: option.splits) 

lemma str_of_scope_inj:
  "sc \<noteq> Some ''undefined'' \<Longrightarrow> sc' \<noteq> Some ''undefined'' \<Longrightarrow> str_of_scope sc = str_of_scope sc' \<Longrightarrow> sc = sc'"
  by (auto simp: str_of_scope_def split: option.splits)

lemma split_first:
  "d \<notin> set a \<Longrightarrow> d \<notin> set a' \<Longrightarrow> a @ d # x = a' @ d # x' \<Longrightarrow> a = a' \<and> x = x'"
proof (induction a arbitrary: a')
  case Nil
  then show ?case by (cases a') auto
next
  case (Cons y a)
  then show ?case by (cases a') auto
qed

lemma split_last:
  assumes "d \<notin> set a" "d \<notin> set a'" "x @ d # a = x' @ d # a'"
  shows "x = x' \<and> a = a'"
proof -
  from assms(3) have "rev (x @ d # a) = rev (x' @ d # a')"
    by simp
  then have "rev a @ d # rev x = rev a' @ d # rev x'"
    by simp
  from split_first [OF _ _ this] assms(1,2) show ?thesis
    by simp
qed

lemma no_delim_show_nat: "CHR ''_'' \<notin> set (show_nat n)"
proof
  assume "CHR ''_'' \<in> set (show_nat n)"
  then have "is_digit CHR ''_''" by (rule show_nat_digits)
  then show False by (simp add: is_digit_def)
qed

lemma no_delim_str_of_count: "CHR ''_'' \<notin> set (str_of_count c)"
  by (cases c) (simp_all add: str_of_count_def show_int_def no_delim_show_nat)

lemma cache_key_joint:
  assumes nd: "no_delim src" "no_delim src'" "no_delim (str_of_scope sc)"
      "no_delim (str_of_scope sc')" "no_delim l" "no_delim l'"
    and u: "sc \<noteq> Some ''undefined''" "sc' \<noteq> Some ''undefined''"
    and eq: "cacheKeyOf src w sc c l = cacheKeyOf src' w' sc' c' l'"
  shows "src = src' \<and> w = w' \<and> sc = sc' \<and> c = c' \<and> l = l'"
proof -
  let ?S = "str_of_scope sc" and ?S' = "str_of_scope sc'"
  let ?C = "str_of_count c" and ?C' = "str_of_count c'"
  from eq have "src @ CHR ''_'' # (w @ ''_'' @ ?S @ ''_'' @ ?C @ ''_'' @ l)
      = src' @ CHR ''_'' # (w' @ ''_'' @ ?S' @ ''_'' @ ?C' @ ''_'' @ l')"
    by (simp add: cacheKeyOf_def)
  from split_first [OF _ _ this] nd(1,2) have src: "src = src'"
    and r: "w @ ''_'' @ ?S @ ''_'' @ ?C @ ''_'' @ l = w' @ ''_'' @ ?S' @ ''_'' @ ?C' @ ''_'' @ l'"
    by (simp_all add: no_delim_def)
  from r have "(w @ ''_'' @ ?S @ ''_'' @ ?C) @ CHR ''_'' # l
      = (w' @ ''_'' @ ?S' @ ''_'' @ ?C') @ CHR ''_'' # l'"
    by simp
  from split_last [OF _ _ this] nd(5,6) have l: "l = l'"
    and r2: "w @ ''_'' @ ?S @ ''_'' @ ?C = w' @ ''_'' @ ?S' @ ''_'' @ ?C'"
    by (simp_all add: no_delim_def)
  from r2 have "(w @ ''_'' @ ?S) @ CHR ''_'' # ?C = (w' @ ''_'' @ ?S') @ CHR ''_'' # ?C'"
    by simp
  from split_last [OF no_delim_str_of_count no_delim_str_of_count this]
  have C: "?C = ?C'" and r3: "w @ ''_'' @ ?S = w' @ ''_'' @ ?S'"
    by simp_all
  from r3 have "w @ CHR ''_'' # ?S = w' @ CHR ''_'' # ?S'"
    by simp
  from split_last [OF _ _ this] nd(3,4) have w: "w = w'" and S: "?S = ?S'"
    by (simp_all add: no_delim_def)
  from str_of_scope_inj [OF u S] str_of_count_inj [OF C] src w l show ?thesis
    by simp
qed

text \<open>
  Claim C3. The key is a function of the five values that line 98 interpolates, so equal
  values give equal keys. Changing one of them, the other four being kept, changes the
  key. When the source, the scope and the language do not contain the delimiter \<open>_\<close>
  (the term may), equal keys come from equal values only, so that any difference in the
  five values gives a different key. For the scope the values compared are not the
  string \<open>undefined\<close>, which is not a scope of the data model and is what a missing
  scope is printed as.
\<close>

theorem cache_key_fields:
  "(src = src' \<and> w = w' \<and> sc = sc' \<and> c = c' \<and> l = l'
      \<longrightarrow> cacheKeyOf src w sc c l = cacheKeyOf src' w' sc' c' l')
   \<and> (src \<noteq> src' \<longrightarrow> cacheKeyOf src w sc c l \<noteq> cacheKeyOf src' w sc c l)
   \<and> (w \<noteq> w' \<longrightarrow> cacheKeyOf src w sc c l \<noteq> cacheKeyOf src w' sc c l)
   \<and> (sc \<noteq> sc' \<and> sc \<noteq> Some ''undefined'' \<and> sc' \<noteq> Some ''undefined''
      \<longrightarrow> cacheKeyOf src w sc c l \<noteq> cacheKeyOf src w sc' c l)
   \<and> (c \<noteq> c' \<longrightarrow> cacheKeyOf src w sc c l \<noteq> cacheKeyOf src w sc c' l)
   \<and> (l \<noteq> l' \<longrightarrow> cacheKeyOf src w sc c l \<noteq> cacheKeyOf src w sc c l')
   \<and> (no_delim src \<and> no_delim src' \<and> no_delim (str_of_scope sc)
        \<and> no_delim (str_of_scope sc') \<and> no_delim l \<and> no_delim l'
        \<and> sc \<noteq> Some ''undefined'' \<and> sc' \<noteq> Some ''undefined''
        \<and> cacheKeyOf src w sc c l = cacheKeyOf src' w' sc' c' l'
      \<longrightarrow> src = src' \<and> w = w' \<and> sc = sc' \<and> c = c' \<and> l = l')"
proof -
  have single: "(src = src' \<and> w = w' \<and> sc = sc' \<and> c = c' \<and> l = l'
      \<longrightarrow> cacheKeyOf src w sc c l = cacheKeyOf src' w' sc' c' l')
   \<and> (src \<noteq> src' \<longrightarrow> cacheKeyOf src w sc c l \<noteq> cacheKeyOf src' w sc c l)
   \<and> (w \<noteq> w' \<longrightarrow> cacheKeyOf src w sc c l \<noteq> cacheKeyOf src w' sc c l)
   \<and> (sc \<noteq> sc' \<and> sc \<noteq> Some ''undefined'' \<and> sc' \<noteq> Some ''undefined''
      \<longrightarrow> cacheKeyOf src w sc c l \<noteq> cacheKeyOf src w sc' c l)
   \<and> (c \<noteq> c' \<longrightarrow> cacheKeyOf src w sc c l \<noteq> cacheKeyOf src w sc c' l)
   \<and> (l \<noteq> l' \<longrightarrow> cacheKeyOf src w sc c l \<noteq> cacheKeyOf src w sc c l')"
    by (auto simp: cacheKeyOf_def dest: str_of_count_inj str_of_scope_inj)
  with cache_key_joint [of src src' sc sc' l l' w c w' c'] show ?thesis
    by blast
qed

theorem cache_key_fields_witness:
  "''cambridge'' \<noteq> ''gemini''
   \<and> cacheKeyOf ''cambridge'' ''run'' (Some ''relevant'') (Some 1) ''none''
       \<noteq> cacheKeyOf ''gemini'' ''run'' (Some ''relevant'') (Some 1) ''none''
   \<and> ''run'' \<noteq> ''ran''
   \<and> cacheKeyOf ''cambridge'' ''run'' (Some ''relevant'') (Some 1) ''none''
       \<noteq> cacheKeyOf ''cambridge'' ''ran'' (Some ''relevant'') (Some 1) ''none''
   \<and> Some ''relevant'' \<noteq> Some ''all'' \<and> Some ''relevant'' \<noteq> Some ''undefined''
   \<and> Some ''all'' \<noteq> Some ''undefined''
   \<and> cacheKeyOf ''cambridge'' ''run'' (Some ''relevant'') (Some 1) ''none''
       \<noteq> cacheKeyOf ''cambridge'' ''run'' (Some ''all'') (Some 1) ''none''
   \<and> Some (1::int) \<noteq> Some 2
   \<and> cacheKeyOf ''cambridge'' ''run'' (Some ''relevant'') (Some 1) ''none''
       \<noteq> cacheKeyOf ''cambridge'' ''run'' (Some ''relevant'') (Some 2) ''none''
   \<and> ''none'' \<noteq> ''es''
   \<and> cacheKeyOf ''cambridge'' ''run'' (Some ''relevant'') (Some 1) ''none''
       \<noteq> cacheKeyOf ''cambridge'' ''run'' (Some ''relevant'') (Some 1) ''es''
   \<and> cacheKeyOf ''cambridge'' ''run'' (Some ''relevant'') (Some 1) ''none''
       = ''qdp_cambridge_run_relevant_1_none''
   \<and> no_delim ''cambridge'' \<and> no_delim (str_of_scope (Some ''relevant''))
   \<and> no_delim (str_of_scope (Some ''all'')) \<and> no_delim ''none''
   \<and> cacheKeyOf ''cambridge'' ''run_all_2'' (Some ''relevant'') (Some 1) ''none''
       \<noteq> cacheKeyOf ''cambridge'' ''run'' (Some ''all'') (Some 2) ''none''"
proof -
  have nd: "no_delim ''cambridge''" "no_delim (str_of_scope (Some ''relevant''))"
    "no_delim (str_of_scope (Some ''all''))" "no_delim ''none''"
    by (simp_all add: no_delim_def str_of_scope_def)
  have joint: "cacheKeyOf ''cambridge'' ''run_all_2'' (Some ''relevant'') (Some 1) ''none''
       \<noteq> cacheKeyOf ''cambridge'' ''run'' (Some ''all'') (Some 2) ''none''"
    using nd cache_key_fields [of "''cambridge''" "''cambridge''" "''run_all_2''" "''run''"
      "Some ''relevant''" "Some ''all''" "Some 1" "Some 2" "''none''" "''none''"]
    by auto
  from nd joint show ?thesis
    using cache_key_fields [of "''cambridge''" "''cambridge''" "''run''" "''run''"
      "Some ''relevant''" "Some ''relevant''" "Some 1" "Some 1" "''none''" "''none''"]
    cache_key_fields [of "''cambridge''" "''gemini''" "''run''" "''ran''"
      "Some ''relevant''" "Some ''all''" "Some 1" "Some 2" "''none''" "''es''"]
    by (simp add: cacheKeyOf_def str_of_scope_def str_of_count_def show_int_def
      show_nat.simps digit_char_def)
qed

text \<open>
  The fields are joined by \<open>_\<close> and are not escaped: when the source contains the
  delimiter, two keys can coincide although source and term differ.
\<close>

lemma cache_key_delimiter_collision:
  "cacheKeyOf ''a_b'' ''c'' sc c l = cacheKeyOf ''a'' ''b_c'' sc c l"
  by (simp add: cacheKeyOf_def)

text \<open>
  Claim C10. The key is built from the settings as they are stored: a missing scope or
  example count is printed as \<open>undefined\<close>, not as the default the projector uses. A
  missing preference and the same preference set to its default (\<open>relevant\<close>, \<open>1\<close>)
  therefore have different keys and the same projected entry.
\<close>

theorem cache_key_raw_settings:
  "displaySettingsCacheKey (s\<lparr>definitionScope := None\<rparr>) w
     = ''qdp_'' @ str_or (preferredSource s) ''cambridge'' @ ''_'' @ w @ ''_undefined_''
         @ str_of_count (exampleCount s) @ ''_'' @ str_or (targetLanguage s) ''none''
   \<and> displaySettingsCacheKey (s\<lparr>exampleCount := None\<rparr>) w
     = ''qdp_'' @ str_or (preferredSource s) ''cambridge'' @ ''_'' @ w @ ''_''
         @ str_of_scope (definitionScope s) @ ''_undefined_''
         @ str_or (targetLanguage s) ''none''
   \<and> displaySettingsCacheKey (s\<lparr>definitionScope := None\<rparr>) w
       \<noteq> displaySettingsCacheKey (s\<lparr>definitionScope := Some ''relevant''\<rparr>) w
   \<and> applyDisplayPreferences e (s\<lparr>definitionScope := None\<rparr>)
       = applyDisplayPreferences e (s\<lparr>definitionScope := Some ''relevant''\<rparr>)
   \<and> displaySettingsCacheKey (s\<lparr>exampleCount := None\<rparr>) w
       \<noteq> displaySettingsCacheKey (s\<lparr>exampleCount := Some 1\<rparr>) w
   \<and> applyDisplayPreferences e (s\<lparr>exampleCount := None\<rparr>)
       = applyDisplayPreferences e (s\<lparr>exampleCount := Some 1\<rparr>)"
  by (simp add: displaySettingsCacheKey_def cacheKeyOf_def Let_def str_of_scope_def
      str_of_count_def applyDisplayPreferences_def str_or_def show_int_not_undefined [symmetric])

section \<open>Properties of the adapters\<close>

lemma bind_eq_Returns: "bind m f = Returns y \<longleftrightarrow> (\<exists>x. m = Returns x \<and> f x = Returns y)"
  by (cases m) auto

lemma string_receiver_eq: "string_receiver v = Returns s \<longleftrightarrow> v = JStr s"
  by (cases v) auto

lemma mapM_length: "mapM f xs = Returns ys \<Longrightarrow> length ys = length xs"
  by (induction xs arbitrary: ys) (auto simp: bind_eq_Returns)

lemma mw_parallel: "normalizeMwData v = Returns (Some e) \<Longrightarrow> parallel_arrays e"
  by (auto simp: normalizeMwData_def bind_eq_Returns parallel_arrays_def Let_def
      split: if_splits)

lemma gemini_parallel: "normalizeGeminiData v = Returns (Some e) \<Longrightarrow> parallel_arrays e"
  by (auto simp: normalizeGeminiData_def bind_eq_Returns parallel_arrays_def mapM_length
      split: if_splits)

lemma take3_startsWith: "length p \<le> 3 \<Longrightarrow> startsWith (take 3 t) p = startsWith t p"
  by (simp add: startsWith_def min_def)

lemma match_take3: "match_underscore_digit (take 3 t) = match_underscore_digit t"
  by (induction t rule: match_underscore_digit.induct) (auto simp: take_Cons')

lemma subdir_take3: "subdir (take 3 t) = subdir t"
  by (simp add: subdir_def take3_startsWith match_take3 charAt0_def min_def)

lemma mw_Some_D:
  assumes "normalizeMwData v = Returns (Some e)"
  shows "\<exists>entry pronunciation fl shortdef shortdef0 examples meta i.
      at v 0 = Returns entry \<and> mwPronunciation entry = Returns pronunciation
      \<and> get entry ''fl'' = Returns fl
      \<and> get entry ''shortdef'' = Returns shortdef \<and> at shortdef 0 = Returns shortdef0
      \<and> mwExamples entry = Returns examples
      \<and> get entry ''meta'' = Returns meta \<and> get meta ''id'' = Returns (JStr i)
      \<and> e = \<lparr>word = JStr (split_colon_first i), Entry.translation = JUndefined,
               Entry.pos = [or_else fl (JStr ''unknown'')], verbs = [],
               pronunciation = [pronunciation],
               definition = [\<lparr>Sense.pos = or_else fl (JStr ''unknown''),
                     Sense.text = or_else shortdef0 (JStr ''No definition found.''),
                     Sense.translation = JUndefined,
                     example = Some examples\<rparr>]\<rparr>"
  using assms
  by (auto simp: normalizeMwData_def bind_eq_Returns string_receiver_eq Let_def
      split: if_splits)

lemma mwPronunciation_audio:
  assumes "mwPronunciation entry = Returns p"
    and "get entry ''hwi'' = Returns hwi" "truthy hwi"
    and "get hwi ''prs'' = Returns prs" "truthy prs"
    and "at prs 0 = Returns prs0" "truthy prs0"
    and "get prs0 ''sound'' = Returns sound" "truthy sound"
    and "get sound ''audio'' = Returns (JStr t)"
  shows "url p = audioUrl t \<and> lang p = ''us''"
  using assms
  by (auto simp: mwPronunciation_def mwSoundUrl_def bind_eq_Returns Let_def)

text \<open>
  Claim C7. The directory of an audio file is \<open>bix\<close> for a token that starts with
  \<open>bix\<close>, \<open>gg\<close> for one that starts with \<open>gg\<close>, \<open>number\<close> for one that starts with an
  underscore and a digit, and the first character of the token otherwise; it depends on
  the first three characters of the token only. The address is the base
  \<^verbatim>\<open>https://media.merriam-webster.com/audio/prons/en\<close>, the language tag \<open>us\<close>, \<open>wav\<close>,
  the directory and the token with \<open>.wav\<close>; it is the \<open>url\<close> of the pronunciation that
  \<^verbatim>\<open>normalizeMwData\<close> returns for a payload with the audio token \<open>t\<close>.
\<close>

theorem bucket_selection:
  "(startsWith t ''bix'' \<longrightarrow> subdir t = ''bix'')
   \<and> (startsWith t ''gg'' \<longrightarrow> subdir t = ''gg'')
   \<and> (match_underscore_digit t \<longrightarrow> subdir t = ''number'')
   \<and> (\<not> startsWith t ''bix'' \<and> \<not> startsWith t ''gg'' \<and> \<not> match_underscore_digit t
        \<longrightarrow> subdir t = take 1 t)
   \<and> (take 3 t = take 3 t' \<longrightarrow> subdir t = subdir t')
   \<and> audioUrl t = ''https://media.merriam-webster.com/audio/prons/en'' @ ''/'' @ ''us''
         @ ''/wav/'' @ subdir t @ ''/'' @ t @ ''.wav''
   \<and> (normalizeMwData v = Returns (Some e) \<and> at v 0 = Returns entry
        \<and> get entry ''hwi'' = Returns hwi \<and> truthy hwi
        \<and> get hwi ''prs'' = Returns prs \<and> truthy prs
        \<and> at prs 0 = Returns prs0 \<and> truthy prs0
        \<and> get prs0 ''sound'' = Returns sound \<and> truthy sound
        \<and> get sound ''audio'' = Returns (JStr t)
        \<longrightarrow> map url (pronunciation e) = [audioUrl t] \<and> map lang (pronunciation e) = [''us''])"
proof -
  have rule: "(startsWith t ''bix'' \<longrightarrow> subdir t = ''bix'')
   \<and> (startsWith t ''gg'' \<longrightarrow> subdir t = ''gg'')
   \<and> (match_underscore_digit t \<longrightarrow> subdir t = ''number'')
   \<and> (\<not> startsWith t ''bix'' \<and> \<not> startsWith t ''gg'' \<and> \<not> match_underscore_digit t
        \<longrightarrow> subdir t = take 1 t)"
  proof (cases t)
    case Nil
    then show ?thesis by (simp add: subdir_def startsWith_def charAt0_def)
  next
    case (Cons a t1)
    then show ?thesis
      by (cases t1) (auto simp add: subdir_def startsWith_def charAt0_def)
  qed
  have pre: "take 3 t = take 3 t' \<longrightarrow> subdir t = subdir t'"
    using subdir_take3 [of t] subdir_take3 [of t'] by auto
  have u: "audioUrl t = ''https://media.merriam-webster.com/audio/prons/en'' @ ''/'' @ ''us''
         @ ''/wav/'' @ subdir t @ ''/'' @ t @ ''.wav''"
    by (simp add: audioUrl_def)
  have ad: "map url (pronunciation e) = [audioUrl t] \<and> map lang (pronunciation e) = [''us'']"
    if "normalizeMwData v = Returns (Some e)" "at v 0 = Returns entry"
      "get entry ''hwi'' = Returns hwi" "truthy hwi"
      "get hwi ''prs'' = Returns prs" "truthy prs"
      "at prs 0 = Returns prs0" "truthy prs0"
      "get prs0 ''sound'' = Returns sound" "truthy sound"
      "get sound ''audio'' = Returns (JStr t)"
  proof -
    from mw_Some_D [OF that(1)] that(2) obtain p where
      p: "mwPronunciation entry = Returns p" and e: "pronunciation e = [p]"
      by auto
    from mwPronunciation_audio [OF p that(3-11)] e show ?thesis
      by simp
  qed
  from rule pre u ad show ?thesis
    by blast
qed

theorem bucket_selection_witness:
  "startsWith ''bix123'' ''bix'' \<and> subdir ''bix123'' = ''bix''
   \<and> startsWith ''gg01'' ''gg'' \<and> subdir ''gg01'' = ''gg''
   \<and> match_underscore_digit ''_45abc'' \<and> subdir ''_45abc'' = ''number''
   \<and> \<not> startsWith ''xyz'' ''bix'' \<and> \<not> startsWith ''xyz'' ''gg''
   \<and> \<not> match_underscore_digit ''xyz'' \<and> subdir ''xyz'' = ''x''
   \<and> take 3 ''run00001'' = take 3 ''running''
   \<and> subdir ''run00001'' = subdir ''running''
   \<and> normalizeMwData (JArr [JObj
         [(''meta'', JObj [(''id'', JStr ''run:1'')]),
          (''hwi'', JObj [(''prs'', JArr [JObj
             [(''mw'', JStr ''ran''), (''sound'', JObj [(''audio'', JStr ''run00001'')])]])]),
          (''shortdef'', JArr [JStr ''to go faster than a walk''])]])
       = Returns (Some
           \<lparr>word = JStr ''run'', Entry.translation = JUndefined,
            Entry.pos = [JStr ''unknown''], verbs = [],
            pronunciation = [\<lparr>lang = ''us'', pron = JStr ''/ran/'',
              url = ''https://media.merriam-webster.com/audio/prons/en/us/wav/r/run00001.wav''\<rparr>],
            definition =
              [\<lparr>Sense.pos = JStr ''unknown'', Sense.text = JStr ''to go faster than a walk'',
                Sense.translation = JUndefined, example = Some []\<rparr>]\<rparr>)"
proof -
  let ?sound = "JObj [(''audio'', JStr ''run00001'')]"
  let ?prs0 = "JObj [(''mw'', JStr ''ran''), (''sound'', ?sound)]"
  let ?hwi = "JObj [(''prs'', JArr [?prs0])]"
  let ?entry = "JObj [(''meta'', JObj [(''id'', JStr ''run:1'')]), (''hwi'', ?hwi),
      (''shortdef'', JArr [JStr ''to go faster than a walk''])]"
  let ?e = "\<lparr>word = JStr ''run'', Entry.translation = JUndefined,
            Entry.pos = [JStr ''unknown''], verbs = [],
            pronunciation = [\<lparr>lang = ''us'', pron = JStr ''/ran/'',
              url = ''https://media.merriam-webster.com/audio/prons/en/us/wav/r/run00001.wav''\<rparr>],
            definition =
              [\<lparr>Sense.pos = JStr ''unknown'', Sense.text = JStr ''to go faster than a walk'',
                Sense.translation = JUndefined, example = Some []\<rparr>]\<rparr>"
  have ev: "normalizeMwData (JArr [?entry]) = Returns (Some ?e)"
    by (simp add: normalizeMwData_def mwPronunciation_def mwSoundUrl_def mwExamples_def
        mwSupplHasExamples_def lookup_def or_else_def split_colon_first_def audioUrl_def
        subdir_def startsWith_def charAt0_def)
  have 1: "subdir ''bix123'' = ''bix''"
    using bucket_selection [of "''bix123''" "[]" JNull ?e JNull JNull JNull JNull JNull]
    by (simp add: startsWith_def)
  have 2: "subdir ''gg01'' = ''gg''"
    using bucket_selection [of "''gg01''" "[]" JNull ?e JNull JNull JNull JNull JNull]
    by (simp add: startsWith_def)
  have 3: "subdir ''_45abc'' = ''number''"
    using bucket_selection [of "''_45abc''" "[]" JNull ?e JNull JNull JNull JNull JNull]
    by (simp add: is_digit_def)
  have 4: "subdir ''xyz'' = ''x''"
    using bucket_selection [of "''xyz''" "[]" JNull ?e JNull JNull JNull JNull JNull]
    by (simp add: startsWith_def)
  have 5: "subdir ''run00001'' = subdir ''running''"
    using bucket_selection [of "''run00001''" "''running''" JNull ?e JNull JNull JNull JNull JNull]
    by simp
  have 6: "map url (pronunciation ?e) = [audioUrl ''run00001'']"
    using bucket_selection [of "''run00001''" "[]" "JArr [?entry]" ?e ?entry ?hwi "JArr [?prs0]"
        ?prs0 ?sound] ev
    by (simp add: lookup_def)
  from 1 2 3 4 5 6 ev show ?thesis
    by (simp add: startsWith_def is_digit_def)
qed

text \<open>
  Claim C8, as amended. When \<^verbatim>\<open>normalizeMwData\<close> returns an entry for a payload whose
  first record has the short-definition list \<open>sd\<close>, the entry has one sense, whose text
  is the first element of \<open>sd\<close> when that is truthy (a string that is not empty), and
  \<^verbatim>\<open>No definition found.\<close> when \<open>sd\<close> is empty or begins with a falsy element.
\<close>

theorem mw_definition_text:
  assumes "normalizeMwData v = Returns (Some e)"
    and "at v 0 = Returns entry" and "get entry ''shortdef'' = Returns (JArr sd)"
  shows "length (definition e) = 1
    \<and> (\<forall>s rest. sd = s # rest \<and> truthy s \<longrightarrow> Sense.text (definition e ! 0) = s)
    \<and> (\<forall>s rest. sd = s # rest \<and> \<not> truthy s
          \<longrightarrow> Sense.text (definition e ! 0) = JStr ''No definition found.'')
    \<and> (sd = [] \<longrightarrow> Sense.text (definition e ! 0) = JStr ''No definition found.'')"
  using mw_Some_D [OF assms(1)] assms(2,3)
  by (auto simp: or_else_def)

theorem mw_definition_text_witness:
  "normalizeMwData (JArr [JObj
      [(''meta'', JObj [(''id'', JStr ''run:1'')]), (''shortdef'', JArr [JStr ''to go fast''])]])
     = Returns (Some
       \<lparr>word = JStr ''run'', Entry.translation = JUndefined,
        Entry.pos = [JStr ''unknown''], verbs = [],
        pronunciation = [\<lparr>lang = ''us'', pron = JStr [], url = []\<rparr>],
        definition =
          [\<lparr>Sense.pos = JStr ''unknown'', Sense.text = JStr ''to go fast'',
            Sense.translation = JUndefined, example = Some []\<rparr>]\<rparr>)
   \<and> normalizeMwData (JArr [JObj
      [(''meta'', JObj [(''id'', JStr ''run:1'')]), (''shortdef'', JArr [])]])
     = Returns (Some
       \<lparr>word = JStr ''run'', Entry.translation = JUndefined,
        Entry.pos = [JStr ''unknown''], verbs = [],
        pronunciation = [\<lparr>lang = ''us'', pron = JStr [], url = []\<rparr>],
        definition =
          [\<lparr>Sense.pos = JStr ''unknown'', Sense.text = JStr ''No definition found.'',
            Sense.translation = JUndefined, example = Some []\<rparr>]\<rparr>)"
proof -
  let ?m = "(''meta'', JObj [(''id'', JStr ''run:1'')])"
  let ?e1 = "JObj [?m, (''shortdef'', JArr [JStr ''to go fast''])]"
  let ?e2 = "JObj [?m, (''shortdef'', JArr [])]"
  have "\<exists>e. normalizeMwData (JArr [?e1]) = Returns (Some e)"
    by (simp add: normalizeMwData_def mwPronunciation_def mwExamples_def
        mwSupplHasExamples_def lookup_def)
  then obtain e1 where e1: "normalizeMwData (JArr [?e1]) = Returns (Some e1)" ..
  have "\<exists>e. normalizeMwData (JArr [?e2]) = Returns (Some e)"
    by (simp add: normalizeMwData_def mwPronunciation_def mwExamples_def
        mwSupplHasExamples_def lookup_def)
  then obtain e2 where e2: "normalizeMwData (JArr [?e2]) = Returns (Some e2)" ..
  have t1: "Sense.text (definition e1 ! 0) = JStr ''to go fast''"
    using mw_definition_text [OF e1, of ?e1 "[JStr ''to go fast'']"]
    by (simp add: lookup_def)
  have t2: "Sense.text (definition e2 ! 0) = JStr ''No definition found.''"
    using mw_definition_text [OF e2, of ?e2 "[]"]
    by (simp add: lookup_def)
  from e1 e2 t1 t2 show ?thesis
    by (simp add: normalizeMwData_def mwPronunciation_def mwExamples_def
        mwSupplHasExamples_def lookup_def or_else_def split_colon_first_def)
qed

text \<open>
  Claim C8 as stated fails for a list that begins with the empty string: line 28 uses
  \<^verbatim>\<open>||\<close>, so the empty string is replaced by the fallback text.
\<close>

theorem mw_definition_text_counterexample: "normalizeMwData
     (JArr [JObj [(''meta'', JObj [(''id'', JStr ''run:1'')]), (''shortdef'', JArr [JStr ''''])]])
   = Returns (Some
       \<lparr>word = JStr ''run'', Entry.translation = JUndefined,
        Entry.pos = [JStr ''unknown''], verbs = [],
        pronunciation = [\<lparr>lang = ''us'', pron = JStr [], url = []\<rparr>],
        definition =
          [\<lparr>Sense.pos = JStr ''unknown'', Sense.text = JStr ''No definition found.'',
            Sense.translation = JUndefined, example = Some []\<rparr>]\<rparr>)"
  by (simp add: normalizeMwData_def mwPronunciation_def mwExamples_def mwSupplHasExamples_def
      lookup_def or_else_def split_colon_first_def)

text \<open>
  Claim C2, as amended. The entry an adapter returns has one part of speech for each
  sense. The projector leaves \<open>pos\<close> as it is and does not add senses: projecting an
  entry with one part of speech for each sense gives no more senses than parts of
  speech, and as many when the scope is not \<open>relevant\<close> or the entry has at most one
  sense. With scope \<open>relevant\<close> an entry of several senses keeps one sense.
\<close>

theorem parallel_arrays_pipeline:
  "(normalizeMwData v = Returns (Some e) \<longrightarrow> parallel_arrays e)
   \<and> (normalizeGeminiData v = Returns (Some e) \<longrightarrow> parallel_arrays e)
   \<and> Entry.pos (applyDisplayPreferences d p) = Entry.pos d
   \<and> (parallel_arrays d \<longrightarrow>
        length (definition (applyDisplayPreferences d p))
          \<le> length (Entry.pos (applyDisplayPreferences d p)))
   \<and> (parallel_arrays d \<and> (scopeOf p \<noteq> ''relevant'' \<or> length (definition d) \<le> 1)
        \<longrightarrow> parallel_arrays (applyDisplayPreferences d p))
   \<and> (scopeOf p = ''relevant'' \<and> 1 < length (definition d)
        \<longrightarrow> length (definition (applyDisplayPreferences d p)) = 1)"
  using mw_parallel [of v e] gemini_parallel [of v e]
  by (auto simp: parallel_arrays_def pos_apply definition_apply retained_def)

theorem parallel_arrays_pipeline_witness:
  "parallel_arrays run_entry
   \<and> scopeOf (settings_of (Some ''all'') (Some 1)) \<noteq> ''relevant''
   \<and> parallel_arrays (applyDisplayPreferences run_entry (settings_of (Some ''all'') (Some 1)))
   \<and> normalizeMwData (JArr [JObj
        [(''meta'', JObj [(''id'', JStr ''run:1'')]), (''shortdef'', JArr [])]])
      = Returns (Some
         \<lparr>word = JStr ''run'', Entry.translation = JUndefined,
          Entry.pos = [JStr ''unknown''], verbs = [],
          pronunciation = [\<lparr>lang = ''us'', pron = JStr [], url = []\<rparr>],
          definition =
            [\<lparr>Sense.pos = JStr ''unknown'', Sense.text = JStr ''No definition found.'',
              Sense.translation = JUndefined, example = Some []\<rparr>]\<rparr>)
   \<and> normalizeGeminiData (JObj [(''word'', JStr ''run''), (''forms'', JArr
         [JObj [(''definitions'', JArr [JObj [(''definition'', JStr ''move fast'')]])]])])
      = Returns (Some
         \<lparr>word = JStr ''run'', Entry.translation = JNull,
          Entry.pos = [JStr ''unknown''], verbs = [],
          pronunciation = [\<lparr>lang = ''us'', pron = JStr [], url = []\<rparr>],
          definition =
            [\<lparr>Sense.pos = JStr ''unknown'', Sense.text = JStr ''move fast'',
              Sense.translation = JNull, example = Some []\<rparr>]\<rparr>)"
proof -
  let ?mw = "JArr [JObj [(''meta'', JObj [(''id'', JStr ''run:1'')]), (''shortdef'', JArr [])]]"
  let ?mwe = "\<lparr>word = JStr ''run'', Entry.translation = JUndefined,
          Entry.pos = [JStr ''unknown''], verbs = [],
          pronunciation = [\<lparr>lang = ''us'', pron = JStr [], url = []\<rparr>],
          definition =
            [\<lparr>Sense.pos = JStr ''unknown'', Sense.text = JStr ''No definition found.'',
              Sense.translation = JUndefined, example = Some []\<rparr>]\<rparr>"
  let ?ai = "JObj [(''word'', JStr ''run''), (''forms'', JArr
         [JObj [(''definitions'', JArr [JObj [(''definition'', JStr ''move fast'')]])]])]"
  let ?aie = "\<lparr>word = JStr ''run'', Entry.translation = JNull,
          Entry.pos = [JStr ''unknown''], verbs = [],
          pronunciation = [\<lparr>lang = ''us'', pron = JStr [], url = []\<rparr>],
          definition =
            [\<lparr>Sense.pos = JStr ''unknown'', Sense.text = JStr ''move fast'',
              Sense.translation = JNull, example = Some []\<rparr>]\<rparr>"
  let ?p = "settings_of (Some ''all'') (Some 1)"
  have mw: "normalizeMwData ?mw = Returns (Some ?mwe)"
    by (simp add: normalizeMwData_def mwPronunciation_def mwExamples_def
        mwSupplHasExamples_def lookup_def or_else_def split_colon_first_def)
  have ai: "normalizeGeminiData ?ai = Returns (Some ?aie)"
    by (simp add: normalizeGeminiData_def geminiForm_def lookup_def or_else_def)
  have r: "parallel_arrays run_entry"
    by (simp add: parallel_arrays_def run_entry_def)
  have s: "scopeOf ?p \<noteq> ''relevant''"
    by (simp add: settings_of_simps)
  from parallel_arrays_pipeline [of ?mw ?mwe run_entry ?p] r s
  have "parallel_arrays (applyDisplayPreferences run_entry ?p)"
    by blast
  moreover from parallel_arrays_pipeline [of ?ai ?aie run_entry ?p] ai
  have "parallel_arrays ?aie"
    by blast
  moreover from parallel_arrays_pipeline [of ?mw ?mwe run_entry ?p] mw
  have "parallel_arrays ?mwe"
    by blast
  ultimately show ?thesis
    using r s mw ai by simp
qed

text \<open>
  Claim C2 as stated fails for the projector: an entry of two senses projected with
  scope \<open>relevant\<close> keeps its two parts of speech and one sense.
\<close>

theorem parallel_arrays_counterexample:
  "normalizeGeminiData (JObj
     [(''word'', JStr ''run''),
      (''forms'', JArr
        [JObj [(''partOfSpeech'', JStr ''verb''),
               (''definitions'', JArr [JObj [(''definition'', JStr ''move fast'')]])],
         JObj [(''partOfSpeech'', JStr ''noun''),
               (''definitions'', JArr [JObj [(''definition'', JStr ''an act of running'')]])]])])
   = Returns (Some
       \<lparr>word = JStr ''run'', Entry.translation = JNull,
        Entry.pos = [JStr ''verb'', JStr ''noun''], verbs = [],
        pronunciation = [\<lparr>lang = ''us'', pron = JStr [], url = []\<rparr>],
        definition =
          [\<lparr>Sense.pos = JStr ''verb'', Sense.text = JStr ''move fast'',
            Sense.translation = JNull, example = Some []\<rparr>,
           \<lparr>Sense.pos = JStr ''noun'', Sense.text = JStr ''an act of running'',
            Sense.translation = JNull, example = Some []\<rparr>]\<rparr>)
   \<and> applyDisplayPreferences
       \<lparr>word = JStr ''run'', Entry.translation = JNull,
        Entry.pos = [JStr ''verb'', JStr ''noun''], verbs = [],
        pronunciation = [\<lparr>lang = ''us'', pron = JStr [], url = []\<rparr>],
        definition =
          [\<lparr>Sense.pos = JStr ''verb'', Sense.text = JStr ''move fast'',
            Sense.translation = JNull, example = Some []\<rparr>,
           \<lparr>Sense.pos = JStr ''noun'', Sense.text = JStr ''an act of running'',
            Sense.translation = JNull, example = Some []\<rparr>]\<rparr>
       \<lparr>preferredSource = Some ''gemini'', targetLanguage = None,
        definitionScope = Some ''relevant'', exampleCount = Some 1\<rparr>
     = \<lparr>word = JStr ''run'', Entry.translation = JNull,
        Entry.pos = [JStr ''verb'', JStr ''noun''], verbs = [],
        pronunciation = [\<lparr>lang = ''us'', pron = JStr [], url = []\<rparr>],
        definition =
          [\<lparr>Sense.pos = JStr ''verb'', Sense.text = JStr ''move fast'',
            Sense.translation = JNull, example = Some []\<rparr>]\<rparr>
   \<and> \<not> parallel_arrays
       \<lparr>word = JStr ''run'', Entry.translation = JNull,
        Entry.pos = [JStr ''verb'', JStr ''noun''], verbs = [],
        pronunciation = [\<lparr>lang = ''us'', pron = JStr [], url = []\<rparr>],
        definition =
          [\<lparr>Sense.pos = JStr ''verb'', Sense.text = JStr ''move fast'',
            Sense.translation = JNull, example = Some []\<rparr>]\<rparr>"
  by (simp add: normalizeGeminiData_def geminiForm_def lookup_def or_else_def
      applyDisplayPreferences_def str_or_def limitExamples_def parallel_arrays_def Let_def)





























text \<open>
  Three payloads outside the shape of Provider A, on which the adapter throws: in the
  first, line 32 reads \<open>sseq\<close> from element \<open>0\<close> of an empty \<open>def\<close> list, outside the
  \<open>try\<close>; in the second, line 24 calls \<open>startsWith\<close> on the \<open>audio\<close> of a \<open>sound\<close> that
  has none; in the third, line 31 calls \<open>replace\<close> on the \<open>t\<close> of a supplemental example
  that has none.
\<close>

lemma shape_boundary:
  "normalizeMwData (JArr [JObj
      [(''meta'', JObj [(''id'', JStr ''run:1'')]), (''shortdef'', JArr []),
       (''def'', JArr [])]]) = TypeError
   \<and> \<not> mw_payload_shape (JArr [JObj
      [(''meta'', JObj [(''id'', JStr ''run:1'')]), (''shortdef'', JArr []),
       (''def'', JArr [])]])
   \<and> normalizeMwData (JArr [JObj
      [(''meta'', JObj [(''id'', JStr ''run:1'')]), (''shortdef'', JArr []),
       (''hwi'', JObj [(''prs'', JArr [JObj [(''mw'', JStr ''ran''), (''sound'', JObj [])]])])]])
     = TypeError
   \<and> \<not> mw_payload_shape (JArr [JObj
      [(''meta'', JObj [(''id'', JStr ''run:1'')]), (''shortdef'', JArr []),
       (''hwi'', JObj [(''prs'', JArr [JObj [(''mw'', JStr ''ran''), (''sound'', JObj [])]])])]])
   \<and> normalizeMwData (JArr [JObj
      [(''meta'', JObj [(''id'', JStr ''run:1'')]), (''shortdef'', JArr []),
       (''suppl'', JObj [(''examples'', JArr [JObj []])])]]) = TypeError
   \<and> \<not> mw_payload_shape (JArr [JObj
      [(''meta'', JObj [(''id'', JStr ''run:1'')]), (''shortdef'', JArr []),
       (''suppl'', JObj [(''examples'', JArr [JObj []])])]])"
  by (simp add: normalizeMwData_def mwPronunciation_def mwSoundUrl_def mwExamples_def
      mwSupplHasExamples_def replace_in_def lookup_def or_else_def optional_def)

section \<open>Properties of the projector on a store\<close>

lemma extends_refl: "extends h h"
  by (simp add: extends_def)

lemma extends_length: "extends h h' \<Longrightarrow> length h \<le> length h'"
  by (metis extends_def length_take min.cobounded2 min.commute)

lemma extends_trans:
  assumes "extends h h1" "extends h1 h2"
  shows "extends h h2"
proof -
  from assms(1) have l: "length h \<le> length h1"
    by (rule extends_length)
  from assms(2) have "take (length h) (take (length h1) h2) = take (length h) h1"
    by (simp add: extends_def)
  with l assms(1) show ?thesis
    by (simp add: extends_def min_def)
qed

lemma extends_nth: "extends h h' \<Longrightarrow> a < length h \<Longrightarrow> h' ! a = h ! a"
  by (metis extends_def nth_take)

lemma limitExamples_store_extends: "extends h (snd (limitExamples_store count d h))"
  by (auto simp: limitExamples_store_def alloc_def Let_def extends_def write_field_def
      split: option.splits hval.splits cell.splits)

lemma map_store_extends:
  assumes "\<And>x h. extends h (snd (f x h))"
  shows "extends h (snd (map_store f xs h))"
proof (induction xs arbitrary: h)
  case Nil
  show ?case by (simp add: extends_refl)
next
  case (Cons x xs)
  obtain r h1 where f: "f x h = (r, h1)" by (cases "f x h")
  with assms [of h x] have e1: "extends h h1" by simp
  show ?case
  proof (cases r)
    case None
    with f e1 show ?thesis by simp
  next
    case (Some y)
    obtain rs h2 where m: "map_store f xs h1 = (rs, h2)" by (cases "map_store f xs h1")
    with Cons.IH [of h1] have "extends h1 h2" by simp
    with e1 have "extends h h2" by (rule extends_trans)
    with f Some m show ?thesis by (cases rs) simp_all
  qed
qed

lemma extends_append: "extends h h' \<Longrightarrow> extends h (h' @ xs)"
  using extends_length [of h h'] by (simp add: extends_def)

lemma map_limit_extends:
  assumes "map_store (limitExamples_store c) xs h1 = (r, h3)" and "extends h h1"
  shows "extends h h3"
  using map_store_extends [of "limitExamples_store c" h1 xs, OF limitExamples_store_extends]
    assms extends_trans [of h h1 h3]
  by simp

lemma applyDisplayPreferences_store_extends:
  "extends h (snd (applyDisplayPreferences_store data settings h))"
  by (auto simp: applyDisplayPreferences_store_def Let_def alloc_def extends_refl extends_append
      split: option.splits prod.splits if_splits
      intro!: extends_append
      intro: map_limit_extends [where h = h])

lemma object_at_mono: "extends h h' \<Longrightarrow> object_at h v = Some fs \<Longrightarrow> object_at h' v = Some fs"
  using extends_length [of h h'] extends_nth [of h h']
  by (auto simp: object_at_def split: hval.splits if_splits cell.splits)

lemma array_at_mono: "extends h h' \<Longrightarrow> array_at h v = Some xs \<Longrightarrow> array_at h' v = Some xs"
  using extends_length [of h h'] extends_nth [of h h']
  by (auto simp: array_at_def split: hval.splits if_splits cell.splits)

lemma examples_at_mono:
  "extends h h' \<Longrightarrow> examples_at h v = Some ex \<Longrightarrow> examples_at h' v = Some ex"
  by (auto simp: examples_at_def dest: array_at_mono split: hval.splits if_splits option.splits)

lemma sense_at_mono:
  assumes "extends h h'" "sense_at h v = Some s"
  shows "sense_at h' v = Some s"
proof -
  from assms(2) obtain fs where fs: "object_at h v = Some fs"
    by (auto simp: sense_at_def split: option.splits)
  from assms(2) fs obtain ex where ex: "examples_at h (field fs ''example'') = Some ex"
    by (auto simp: sense_at_def split: option.splits)
  from object_at_mono [OF assms(1) fs] examples_at_mono [OF assms(1) ex] assms(2) fs ex
  show ?thesis
    by (simp add: sense_at_def)
qed

lemma all_some_cong_mono:
  assumes "\<And>x y. f x = Some y \<Longrightarrow> g x = Some y"
  shows "all_some f xs = Some ys \<Longrightarrow> all_some g xs = Some ys"
  by (induction xs arbitrary: ys) (auto split: option.splits dest: assms)

lemma senses_at_mono:
  assumes "extends h h'" "senses_at h v = Some ss"
  shows "senses_at h' v = Some ss"
proof -
  from assms(2) obtain ds where ds: "array_at h v = Some ds" and a: "all_some (sense_at h) ds = Some ss"
    by (auto simp: senses_at_def split: option.splits)
  from a have "all_some (sense_at h') ds = Some ss"
    by (rule all_some_cong_mono [rotated]) (rule sense_at_mono [OF assms(1)])
  with array_at_mono [OF assms(1) ds] show ?thesis
    by (simp add: senses_at_def)
qed

lemma entry_at_mono:
  assumes "extends h h'" "entry_at h v = Some e"
  shows "entry_at h' v = Some e"
proof -
  from assms(2) obtain fs where fs: "object_at h v = Some fs"
    by (auto simp: entry_at_def split: option.splits)
  from assms(2) fs obtain ss where ss: "senses_at h (field fs ''definition'') = Some ss"
    by (auto simp: entry_at_def split: option.splits)
  from object_at_mono [OF assms(1) fs] senses_at_mono [OF assms(1) ss] assms(2) fs ss
  show ?thesis
    by (simp add: entry_at_def)
qed

lemma field_set_field: "field (set_field fs k v) k' = (if k' = k then v else field fs k')"
  by (induction fs) (auto simp: field_def)

lemma all_some_length: "all_some f xs = Some ys \<Longrightarrow> length ys = length xs"
  by (induction xs arbitrary: ys) (auto split: option.splits)

lemma all_some_take: "all_some f xs = Some ys \<Longrightarrow> all_some f (take n xs) = Some (take n ys)"
proof (induction xs arbitrary: ys n)
  case Nil
  then show ?case by simp
next
  case (Cons x xs)
  then show ?case
    by (cases n) (auto split: option.splits)
qed

lemma all_some_slice0:
  "all_some f xs = Some ys \<Longrightarrow> all_some f (slice0 xs c) = Some (slice0 ys c)"
  by (simp add: slice0_def Let_def all_some_take all_some_length)

lemma sense_atD:
  assumes "sense_at h d = Some s"
  obtains fs ex where "object_at h d = Some fs"
    and "plain (field fs ''pos'') = Some (Sense.pos s)"
    and "plain (field fs ''text'') = Some (Sense.text s)"
    and "plain (field fs ''translation'') = Some (Sense.translation s)"
    and "examples_at h (field fs ''example'') = Some (example s)"
  using assms by (auto simp: sense_at_def split: option.splits)

lemma object_at_append_new: "object_at (h @ [Obj fs]) (Ref (length h)) = Some fs"
  by (simp add: object_at_def)

lemma examples_at_RefD:
  "examples_at h (Ref x) = Some ex \<Longrightarrow>
     \<exists>es exs. array_at h (Ref x) = Some es \<and> all_some example_of es = Some exs \<and> ex = Some exs"
  by (auto simp: examples_at_def split: option.splits)

lemma limitExamples_store_correct:
  assumes "sense_at h d = Some s"
  shows "\<exists>a h1. limitExamples_store c d h = (Some (Ref a), h1) \<and> length h \<le> a
           \<and> sense_at h1 (Ref a) = Some (limitExamples c s)"
proof -
  from assms obtain fs where fs: "object_at h d = Some fs"
    and p: "plain (field fs ''pos'') = Some (Sense.pos s)"
    and t: "plain (field fs ''text'') = Some (Sense.text s)"
    and tr: "plain (field fs ''translation'') = Some (Sense.translation s)"
    and ex: "examples_at h (field fs ''example'') = Some (example s)"
    by (rule sense_atD)
  let ?h1 = "h @ [Obj fs]"
  have e1: "extends h ?h1"
    by (simp add: extends_def)
  show ?thesis
  proof (cases "field fs ''example''")
    case (Val w)
    with ex have w: "\<not> truthy w" and none: "example s = None"
      by (auto simp: examples_at_def split: if_splits)
    from fs Val w have run: "limitExamples_store c d h = (Some (Ref (length h)), ?h1)"
      by (simp add: limitExamples_store_def alloc_def)
    from p t tr Val w none have "sense_at ?h1 (Ref (length h)) = Some s"
      by (simp add: sense_at_def object_at_append_new examples_at_def)
    moreover from none have "limitExamples c s = s"
      by (simp add: limitExamples_def)
    ultimately show ?thesis
      using run by simp
  next
    case (Ref x)
    with ex have "examples_at h (Ref x) = Some (example s)"
      by simp
    from examples_at_RefD [OF this] obtain es exs where es: "array_at h (Ref x) = Some es"
      and exs: "all_some example_of es = Some exs" and some: "example s = Some exs"
      by blast
    from array_at_mono [OF e1 es] have es1: "array_at ?h1 (Ref x) = Some es" .
    from all_some_length [OF exs] have len: "length exs = length es" .
    show ?thesis
    proof (cases "int (length es) > c")
      case False
      with fs Ref es1 have run: "limitExamples_store c d h = (Some (Ref (length h)), ?h1)"
        by (simp add: limitExamples_store_def alloc_def)
      from p t tr Ref es1 exs some have "sense_at ?h1 (Ref (length h)) = Some s"
        by (simp add: sense_at_def object_at_append_new examples_at_def)
      moreover from some False len have "limitExamples c s = s"
        by (simp add: limitExamples_def)
      ultimately show ?thesis
        using run by simp
    next
      case True
      let ?fs' = "set_field fs ''example'' (Ref (Suc (length h)))"
      let ?h3 = "h @ [Obj ?fs', Arr (slice0 es c)]"
      from fs Ref es1 True have run: "limitExamples_store c d h = (Some (Ref (length h)), ?h3)"
        by (simp add: limitExamples_store_def alloc_def write_field_def nth_append)
      have o: "object_at ?h3 (Ref (length h)) = Some ?fs'"
        by (simp add: object_at_def nth_append)
      have a: "array_at ?h3 (Ref (Suc (length h))) = Some (slice0 es c)"
        by (simp add: array_at_def nth_append)
      from all_some_slice0 [OF exs] have sl: "all_some example_of (slice0 es c) = Some (slice0 exs c)" .
      from p t tr o a sl have "sense_at ?h3 (Ref (length h)) = Some (s\<lparr>example := Some (slice0 exs c)\<rparr>)"
        by (simp add: sense_at_def field_set_field examples_at_def)
      moreover from some True len have "limitExamples c s = s\<lparr>example := Some (slice0 exs c)\<rparr>"
        by (simp add: limitExamples_def)
      ultimately show ?thesis
        using run by simp
    qed
  qed
qed

lemma map_store_correct:
  assumes "all_some (sense_at h) ds = Some ss"
  shows "\<exists>rs h'. map_store (limitExamples_store c) ds h = (Some rs, h') \<and> extends h h'
           \<and> all_some (sense_at h') rs = Some (map (limitExamples c) ss)"
  using assms
proof (induction ds arbitrary: h ss)
  case Nil
  then show ?case by (auto simp: extends_refl)
next
  case (Cons d ds)
  from Cons.prems obtain s ss' where s: "sense_at h d = Some s"
    and ss': "all_some (sense_at h) ds = Some ss'" and ss: "ss = s # ss'"
    by (auto split: option.splits)
  from limitExamples_store_correct [OF s, of c] obtain a h1 where
    run: "limitExamples_store c d h = (Some (Ref a), h1)"
    and a: "sense_at h1 (Ref a) = Some (limitExamples c s)"
    by blast
  from limitExamples_store_extends [of h c d] run have e1: "extends h h1"
    by simp
  from ss' have "all_some (sense_at h1) ds = Some ss'"
    by (rule all_some_cong_mono [rotated]) (rule sense_at_mono [OF e1])
  from Cons.IH [OF this] obtain rs h2 where
    m: "map_store (limitExamples_store c) ds h1 = (Some rs, h2)" and e2: "extends h1 h2"
    and rs: "all_some (sense_at h2) rs = Some (map (limitExamples c) ss')"
    by blast
  from sense_at_mono [OF e2 a] rs ss
  have "all_some (sense_at h2) (Ref a # rs) = Some (map (limitExamples c) ss)"
    by simp
  with run m extends_trans [OF e1 e2] show ?case
    by simp
qed

lemma entry_atD:
  assumes "entry_at h v = Some e"
  obtains fs prs where "object_at h v = Some fs"
    and "plain (field fs ''word'') = Some (word e)"
    and "plain (field fs ''translation'') = Some (Entry.translation e)"
    and "plain_array (field fs ''pos'') = Some (Entry.pos e)"
    and "plain_array (field fs ''verbs'') = Some (verbs e)"
    and "plain_array (field fs ''pronunciation'') = Some prs"
    and "all_some pronunciation_of prs = Some (pronunciation e)"
    and "senses_at h (field fs ''definition'') = Some (definition e)"
  using assms by (auto simp: entry_at_def split: option.splits)

lemma applyDisplayPreferences_store_correct:
  assumes "entry_at h data = Some e"
  shows "\<exists>a h'. applyDisplayPreferences_store data s h = (Some (Ref a), h') \<and> length h \<le> a
           \<and> entry_at h' (Ref a) = Some (applyDisplayPreferences e s)"
proof -
  from assms obtain fs prs where fs: "object_at h data = Some fs"
    and w: "plain (field fs ''word'') = Some (word e)"
    and tr: "plain (field fs ''translation'') = Some (Entry.translation e)"
    and ps: "plain_array (field fs ''pos'') = Some (Entry.pos e)"
    and vs: "plain_array (field fs ''verbs'') = Some (verbs e)"
    and pr: "plain_array (field fs ''pronunciation'') = Some prs"
    and prs: "all_some pronunciation_of prs = Some (pronunciation e)"
    and ds: "senses_at h (field fs ''definition'') = Some (definition e)"
    by (rule entry_atD)
  from ds obtain defs where defs: "array_at h (field fs ''definition'') = Some defs"
    and senses: "all_some (sense_at h) defs = Some (definition e)"
    by (auto simp: senses_at_def split: option.splits)
  from all_some_length [OF senses] have len: "length (definition e) = length defs" .
  define cut where "cut \<longleftrightarrow> scopeOf s = ''relevant'' \<and> length defs > 1"
  define h2 where "h2 = (if cut then h @ [Arr defs, Arr [defs ! 0]] else h @ [Arr defs])"
  define dtu where "dtu = (if cut then Suc (length h) else length h)"
  define kept where "kept = (if cut then [defs ! 0] else defs)"
  have e2: "extends h h2"
    by (simp add: h2_def extends_def)
  have kept_at: "array_at h2 (Ref dtu) = Some kept"
    by (simp add: h2_def dtu_def kept_def array_at_def nth_append)
  have "kept = (if scopeOf s = ''relevant'' then take 1 defs else defs)"
    by (cases defs) (auto simp: kept_def cut_def)
  with senses have "all_some (sense_at h) kept = Some (retained e s)"
    by (simp add: retained_def all_some_take)
  then have "all_some (sense_at h2) kept = Some (retained e s)"
    by (rule all_some_cong_mono [rotated]) (rule sense_at_mono [OF e2])
  from map_store_correct [OF this, of "countOf s"] obtain newDefs h3 where
    m: "map_store (limitExamples_store (countOf s)) kept h2 = (Some newDefs, h3)"
    and e3: "extends h2 h3"
    and nd: "all_some (sense_at h3) newDefs = Some (map (limitExamples (countOf s)) (retained e s))"
    by blast
  let ?fs' = "set_field fs ''definition'' (Ref (length h3))"
  let ?h5 = "h3 @ [Arr newDefs, Obj ?fs']"
  have run: "applyDisplayPreferences_store data s h = (Some (Ref (Suc (length h3))), ?h5)"
  proof (cases cut)
    case True
    with kept_at m have "array_at (h @ [Arr defs, Arr [defs ! 0]]) (Ref (Suc (length h)))
        = Some [defs ! 0]"
      and "map_store (limitExamples_store (countOf s)) [defs ! 0]
        (h @ [Arr defs, Arr [defs ! 0]]) = (Some newDefs, h3)"
      by (simp_all add: h2_def dtu_def kept_def)
    with fs defs True show ?thesis
      by (simp add: applyDisplayPreferences_store_def alloc_def Let_def cut_def scopeOf_def
          countOf_def)
  next
    case False
    with kept_at m have "array_at (h @ [Arr defs]) (Ref (length h)) = Some defs"
      and "map_store (limitExamples_store (countOf s)) defs (h @ [Arr defs])
        = (Some newDefs, h3)"
      by (simp_all add: h2_def dtu_def kept_def)
    with fs defs False show ?thesis
      by (auto simp: applyDisplayPreferences_store_def alloc_def Let_def cut_def scopeOf_def
          countOf_def)
  qed
  have e5: "extends h3 ?h5"
    by (simp add: extends_def)
  from nd have nd5: "all_some (sense_at ?h5) newDefs = Some (map (limitExamples (countOf s)) (retained e s))"
    by (rule all_some_cong_mono [rotated]) (rule sense_at_mono [OF e5])
  have o5: "object_at ?h5 (Ref (Suc (length h3))) = Some ?fs'"
    by (simp add: object_at_def nth_append)
  have a5: "array_at ?h5 (Ref (length h3)) = Some newDefs"
    by (simp add: array_at_def nth_append)
  from w tr ps vs pr prs o5 a5 nd5
  have "entry_at ?h5 (Ref (Suc (length h3)))
      = Some (e\<lparr>definition := map (limitExamples (countOf s)) (retained e s)\<rparr>)"
    by (simp add: entry_at_def field_set_field senses_at_def)
  moreover from extends_length [OF e2] extends_length [OF e3] have "length h \<le> Suc (length h3)"
    by simp
  ultimately show ?thesis
    using run by (simp add: applyDisplayPreferences_eq)
qed

text \<open>
  Claim C9. A call of the projector on a store leaves every cell of the store as it
  was, so that every entry that could be read from the store before the call reads the
  same after it, the input entry with its list of definitions and their examples among
  them. When \<open>data\<close> stands for the entry \<open>e\<close>, the call returns a reference to a
  cell that was not in the store before, which stands for the projected entry
  \<^term>\<open>applyDisplayPreferences e s\<close>.
\<close>

theorem applyDisplayPreferences_no_mutation:
  assumes "applyDisplayPreferences_store data s h = (r, h')"
  shows "take (length h) h' = h
    \<and> (\<forall>v x. entry_at h v = Some x \<longrightarrow> entry_at h' v = Some x)
    \<and> (\<forall>e. entry_at h data = Some e \<longrightarrow>
          (\<exists>a. r = Some (Ref a) \<and> length h \<le> a
             \<and> entry_at h' (Ref a) = Some (applyDisplayPreferences e s)))"
proof -
  from applyDisplayPreferences_store_extends [of h data s] assms have e: "extends h h'"
    by simp
  then have 1: "take (length h) h' = h"
    by (simp add: extends_def)
  from e have 2: "\<forall>v x. entry_at h v = Some x \<longrightarrow> entry_at h' v = Some x"
    by (blast intro: entry_at_mono)
  have 3: "\<exists>a. r = Some (Ref a) \<and> length h \<le> a
      \<and> entry_at h' (Ref a) = Some (applyDisplayPreferences e s)"
    if "entry_at h data = Some e" for e
    using applyDisplayPreferences_store_correct [OF that, of s] assms by auto
  from 1 2 3 show ?thesis
    by blast
qed

lemma run_store_entry: "entry_at run_store (Ref 0) = Some run_entry"
  by (simp add: run_store_def run_entry_def entry_at_def senses_at_def sense_at_def
      examples_at_def object_at_def array_at_def field_def lookup_def ex_of_def)

lemma run_store_run:
  "fst (applyDisplayPreferences_store (Ref 0) (settings_of None (Some 2)) run_store)
     = Some (Ref 11)"
  by (simp add: run_store_def applyDisplayPreferences_store_def limitExamples_store_def
      settings_of_def str_or_def object_at_def array_at_def field_def alloc_def Let_def
      write_field_def slice0_def nth_append)

theorem applyDisplayPreferences_no_mutation_witness:
  "entry_at run_store (Ref 0) = Some run_entry
   \<and> fst (applyDisplayPreferences_store (Ref 0) (settings_of None (Some 2)) run_store)
       = Some (Ref 11)
   \<and> take 6 (snd (applyDisplayPreferences_store (Ref 0) (settings_of None (Some 2)) run_store))
       = run_store
   \<and> entry_at (snd (applyDisplayPreferences_store (Ref 0) (settings_of None (Some 2)) run_store))
        (Ref 0) = Some run_entry
   \<and> entry_at (snd (applyDisplayPreferences_store (Ref 0) (settings_of None (Some 2)) run_store))
        (Ref 11) = Some (applyDisplayPreferences run_entry (settings_of None (Some 2)))"
proof -
  let ?p = "settings_of None (Some 2)"
  let ?run = "applyDisplayPreferences_store (Ref 0) ?p run_store"
  have len: "length run_store = 6"
    by (simp add: run_store_def)
  have "?run = (fst ?run, snd ?run)"
    by simp
  from applyDisplayPreferences_no_mutation [OF this] run_store_entry run_store_run len
  show ?thesis
    by auto
qed

end
